theory Spec2Isabelle
  imports Main "HOL-Library.Word"
begin

section \<open>The k2d pod converter (internal/adapter/converter/pod.go)\<close>

text \<open>
  A shallow embedding of the two converters of \<^verbatim>\<open>pod.go\<close>: the reverse converter
  \<^verbatim>\<open>ConvertContainerToPod\<close> and the forward converter
  \<^verbatim>\<open>ConvertPodSpecToContainerConfiguration\<close> with the helpers it calls.

  Conventions of the embedding.
  \<^item> A Go struct is a record, named after its package and type; a field keeps its Go
    name and is written qualified (\<open>core_Volume.Name v\<close>) where several structs share it.
    Only the fields that \<^verbatim>\<open>pod.go\<close> reads or writes are modelled.
  \<^item> A pointer is an \<open>option\<close>: \<open>None\<close> is \<^verbatim>\<open>nil\<close>.
  \<^item> \<^verbatim>\<open>int32\<close> and \<^verbatim>\<open>int64\<close> are 32 and 64 bit words, read signed with \<open>sint\<close>.
  \<^item> A Go function that mutates a struct through a pointer and returns an \<^verbatim>\<open>error\<close>
    takes the struct and returns the pair of the struct as it leaves it and the error
    (\<open>None\<close> is the \<^verbatim>\<open>nil\<close> error).
  \<^item> A run-time panic is the outcome \<open>Panic\<close>; a normal return is \<open>Return\<close>.
  \<^item> A Go map that is only read by key or passed on is a HOL map. A Go map that is
    ranged over is the list of its entries in the order in which the run time
    enumerates them (Go leaves that order unspecified); its keys are distinct.
\<close>

subsection \<open>Machine integers, panics and errors\<close>

type_synonym int32 = "32 word"
type_synonym int64 = "64 word"

datatype panic = IndexOutOfRange | NilPointerDereference

datatype 'a outcome = Return 'a | Panic panic

text \<open>
  The converter creates no error of its own: an error value is produced by a
  collaborator (a store, or \<^verbatim>\<open>nat.NewPort\<close>) and is opaque here, or it is
  \<^verbatim>\<open>fmt.Errorf("<text>%w", err)\<close>: the text before the verb \<^verbatim>\<open>%w\<close>, and the error
  it wraps.
\<close>

datatype error = External string | Errorf string error

subsection \<open>Formatting\<close>

text \<open>
  \<^verbatim>\<open>strconv.Itoa\<close> and the verb \<^verbatim>\<open>%d\<close> of \<^verbatim>\<open>fmt.Sprintf\<close>: the decimal digits
  of an integer, with a minus sign when it is negative. The verb \<^verbatim>\<open>%s\<close> is
  concatenation.
\<close>

definition digit :: "nat \<Rightarrow> char" where
  "digit d = ''0123456789'' ! d"

fun FormatUint :: "nat \<Rightarrow> string" where
  "FormatUint n = (if n < 10 then [digit n] else FormatUint (n div 10) @ [digit (n mod 10)])"

declare FormatUint.simps [simp del]

definition Itoa :: "int \<Rightarrow> string" where
  "Itoa i = (if i < 0 then CHR ''-'' # FormatUint (nat (- i)) else FormatUint (nat i))"

text \<open>\<^verbatim>\<open>strings.TrimPrefix(s, prefix)\<close>: \<open>s\<close> without the leading \<open>prefix\<close>, or \<open>s\<close>.\<close>

definition TrimPrefix :: "string \<Rightarrow> string \<Rightarrow> string" where
  "TrimPrefix s prefix = (if take (length prefix) s = prefix then drop (length prefix) s else s)"

text \<open>
  Indexing a Go \<^verbatim>\<open>map[string]string\<close> (or \<^verbatim>\<open>map[string][]byte\<close> printed with
  \<^verbatim>\<open>%s\<close>): the value of the key, the empty string when the key is absent.
\<close>

definition index_HOLmap :: "(string \<rightharpoonup> string) \<Rightarrow> string \<Rightarrow> string" where
  "index_HOLmap m k = (case m k of None \<Rightarrow> '''' | Some v \<Rightarrow> v)"

definition index_entries :: "(string \<times> string) list \<Rightarrow> string \<Rightarrow> string" where
  "index_entries kvs k = index_HOLmap (map_of kvs) k"

subsection \<open>The container engine's types (docker)\<close>

record types_Container =
  ID :: string
  Names :: "string list"
  Image :: string
  Created :: int64
  State :: string
  Labels :: "string \<rightharpoonup> string"

record nat_PortBinding =
  HostIP :: string
  HostPort :: string

record container_RestartPolicy =
  Name :: string

record container_Resources =
  CPUShares :: int64
  Memory :: int64
  NanoCPUs :: int64
  MemoryReservation :: int64

text \<open>
  \<^verbatim>\<open>nat.Port\<close> is a string, \<^verbatim>\<open>nat.PortSet\<close> a set of ports and \<^verbatim>\<open>nat.PortMap\<close>
  a map from ports to lists of bindings.
\<close>

record container_Config =
  User :: string
  ExposedPorts :: "string set"
  Env :: "string list"
  Cmd :: "string list"
  Image :: string
  Entrypoint :: "string list"
  Labels :: "string \<rightharpoonup> string"

record container_HostConfig =
  Binds :: "string list"
  PortBindings :: "string \<rightharpoonup> nat_PortBinding list"
  RestartPolicy :: container_RestartPolicy
  ExtraHosts :: "string list"
  Privileged :: bool
  Resources :: container_Resources

text \<open>\<^verbatim>\<open>network.EndpointSettings\<close>: the converter only ever makes the zero value.\<close>

type_synonym network_EndpointSettings = unit

record network_NetworkingConfig =
  EndpointsConfig :: "string \<rightharpoonup> network_EndpointSettings"

record ContainerConfiguration =
  ContainerConfig :: "container_Config option"
  HostConfig :: "container_HostConfig option"
  NetworkConfig :: "network_NetworkingConfig option"

text \<open>The zero values of these structs, as a Go composite literal leaves the fields it does not name.\<close>

definition zero_Resources :: container_Resources where
  "zero_Resources = \<lparr>CPUShares = 0, Memory = 0, NanoCPUs = 0, MemoryReservation = 0\<rparr>"

definition zero_Config :: container_Config where
  "zero_Config = \<lparr>User = '''', ExposedPorts = {}, Env = [], Cmd = [],
     container_Config.Image = '''', Entrypoint = [], container_Config.Labels = Map.empty\<rparr>"

definition zero_HostConfig :: container_HostConfig where
  "zero_HostConfig = \<lparr>Binds = [], PortBindings = Map.empty,
     RestartPolicy = \<lparr>container_RestartPolicy.Name = ''''\<rparr>, ExtraHosts = [],
     Privileged = False, Resources = zero_Resources\<rparr>"

definition zero_ContainerConfiguration :: ContainerConfiguration where
  "zero_ContainerConfiguration = \<lparr>ContainerConfig = None, HostConfig = None, NetworkConfig = None\<rparr>"

subsection \<open>The pod specification (k8s core)\<close>

record core_ContainerPort =
  Protocol :: string
  ContainerPort :: int32
  HostPort :: int32

record core_ConfigMapKeySelector =
  Name :: string
  Key :: string

record core_SecretKeySelector =
  Name :: string
  Key :: string

record core_EnvVarSource =
  ConfigMapKeyRef :: "core_ConfigMapKeySelector option"
  SecretKeyRef :: "core_SecretKeySelector option"

record core_EnvVar =
  Name :: string
  Value :: string
  ValueFrom :: "core_EnvVarSource option"

record core_ConfigMapEnvSource =
  Name :: string

record core_SecretEnvSource =
  Name :: string

record core_EnvFromSource =
  ConfigMapRef :: "core_ConfigMapEnvSource option"
  SecretRef :: "core_SecretEnvSource option"

record core_PodSecurityContext =
  RunAsUser :: "int64 option"
  RunAsGroup :: "int64 option"

record core_SecurityContext =
  Privileged :: "bool option"

text \<open>
  \<^verbatim>\<open>resource.Quantity\<close> is read through two methods only; a quantity is modelled
  as the pair of what they return. \<^verbatim>\<open>core.ResourceList\<close> is a map from resource
  names to quantities that the converter ranges over.
\<close>

record resource_Quantity =
  MilliValue :: int64
  Value :: int64

type_synonym core_ResourceList = "(string \<times> resource_Quantity) list"

definition ResourceCPU :: string where
  "ResourceCPU = ''cpu''"

definition ResourceMemory :: string where
  "ResourceMemory = ''memory''"

record core_ResourceRequirements =
  Limits :: "core_ResourceList option"
  Requests :: "core_ResourceList option"

record core_ConfigMapVolumeSource =
  Name :: string

record core_SecretVolumeSource =
  SecretName :: string

record core_HostPathVolumeSource =
  Path :: string

text \<open>\<^verbatim>\<open>core.Volume\<close> embeds \<^verbatim>\<open>VolumeSource\<close>; its three pointers are fields here.\<close>

record core_Volume =
  Name :: string
  ConfigMap :: "core_ConfigMapVolumeSource option"
  Secret :: "core_SecretVolumeSource option"
  HostPath :: "core_HostPathVolumeSource option"

record core_VolumeMount =
  Name :: string
  MountPath :: string

record core_Container =
  Name :: string
  Image :: string
  Command :: "string list"
  Args :: "string list"
  Ports :: "core_ContainerPort list"
  EnvFrom :: "core_EnvFromSource list"
  Env :: "core_EnvVar list"
  Resources :: core_ResourceRequirements
  VolumeMounts :: "core_VolumeMount list"
  SecurityContext :: "core_SecurityContext option"

record core_PodSpec =
  Volumes :: "core_Volume list"
  Containers :: "core_Container list"
  RestartPolicy :: string
  SecurityContext :: "core_PodSecurityContext option"

definition zero_Container :: core_Container where
  "zero_Container = \<lparr>core_Container.Name = '''', core_Container.Image = '''', Command = [], Args = [],
     Ports = [], EnvFrom = [], core_Container.Env = [],
     core_Container.Resources = \<lparr>Limits = None, Requests = None\<rparr>,
     VolumeMounts = [], core_Container.SecurityContext = None\<rparr>"

definition zero_PodSpec :: core_PodSpec where
  "zero_PodSpec = \<lparr>Volumes = [], Containers = [], core_PodSpec.RestartPolicy = '''',
     core_PodSpec.SecurityContext = None\<rparr>"

subsection \<open>The pod observation (k8s core, meta/v1)\<close>

text \<open>\<^verbatim>\<open>metav1.NewTime(time.Unix(sec, 0))\<close>: a time is the Unix second it was made from.\<close>

datatype metav1_Time = Unix int64

record metav1_TypeMeta =
  Kind :: string
  APIVersion :: string

record metav1_ObjectMeta =
  Name :: string
  Namespace :: string
  CreationTimestamp :: metav1_Time
  Annotations :: "string \<rightharpoonup> string"

record core_ContainerStateRunning =
  StartedAt :: metav1_Time

record core_ContainerState =
  Running :: "core_ContainerStateRunning option"

record core_ContainerStatus =
  Name :: string
  State :: core_ContainerState
  Ready :: bool
  RestartCount :: int32
  ContainerID :: string
  Started :: "bool option"

text \<open>\<^verbatim>\<open>core.PodPhase\<close> is a string type; these are the two of its constants the converter uses.\<close>

definition PodRunning :: string where
  "PodRunning = ''Running''"

definition PodUnknown :: string where
  "PodUnknown = ''Unknown''"

record core_PodStatus =
  Phase :: string
  ContainerStatuses :: "core_ContainerStatus list"

record core_Pod =
  TypeMeta :: metav1_TypeMeta
  ObjectMeta :: metav1_ObjectMeta
  Spec :: core_PodSpec
  Status :: core_PodStatus

subsection \<open>The converter and its collaborators\<close>

record core_Secret =
  Name :: string
  Data :: "(string \<times> string) list"

record core_ConfigMap =
  Name :: string
  Data :: "(string \<times> string) list"

text \<open>
  \<^verbatim>\<open>DockerAPIConverter\<close> holds the server configuration and the two stores; a store
  is the pair of its two read methods, and the bind mapping a store returns is a Go
  map from container paths to host paths. What \<^verbatim>\<open>pod.go\<close> uses of other packages
  and does not define is a parameter as well, kept in the same record: the three
  constants of \<^verbatim>\<open>k2dtypes\<close>, and the library functions \<^verbatim>\<open>path.Join\<close> (on two
  elements) and \<^verbatim>\<open>nat.NewPort\<close>.
\<close>

record DockerAPIConverter =
  ServerIpAddr :: string
  ServerPort :: int
  GetSecret :: "string \<Rightarrow> error + core_Secret"
  GetSecretBinds :: "core_Secret \<Rightarrow> error + (string \<times> string) list"
  GetConfigMap :: "string \<Rightarrow> error + core_ConfigMap"
  GetConfigMapBinds :: "core_ConfigMap \<Rightarrow> error + (string \<times> string) list"
  K2dServiceAccountSecretName :: string
  WorkloadLastAppliedConfigLabelKey :: string
  K2DNetworkName :: string
  path_Join :: "string \<Rightarrow> string \<Rightarrow> string"
  nat_NewPort :: "string \<Rightarrow> string \<Rightarrow> error + string"

subsection \<open>The reverse converter\<close>

text \<open>
  \<^verbatim>\<open>ConvertContainerToPod\<close> (lines 21 to 73). \<^verbatim>\<open>container.Names[0]\<close> is read
  first: on an empty slice the index is out of range and the function panics.
\<close>

definition ConvertContainerToPod :: "DockerAPIConverter \<Rightarrow> types_Container \<Rightarrow> core_Pod outcome" where
  "ConvertContainerToPod converter container =
     (case Names container of
        [] \<Rightarrow> Panic IndexOutOfRange
      | name0 # _ \<Rightarrow>
          (let containerName = TrimPrefix name0 ''/'';
               containerState = types_Container.State container;
               pod = \<lparr>TypeMeta = \<lparr>Kind = ''Pod'', APIVersion = ''v1''\<rparr>,
                      ObjectMeta = \<lparr>metav1_ObjectMeta.Name = containerName,
                        Namespace = ''default'',
                        CreationTimestamp = Unix (Created container),
                        Annotations = [''kubectl.kubernetes.io/last-applied-configuration'' \<mapsto>
                          index_HOLmap (types_Container.Labels container)
                            (WorkloadLastAppliedConfigLabelKey converter)]\<rparr>,
                      Spec = zero_PodSpec\<lparr>Containers :=
                        [zero_Container\<lparr>core_Container.Name := containerName,
                           core_Container.Image := types_Container.Image container\<rparr>]\<rparr>,
                      Status = \<lparr>Phase = '''',
                        ContainerStatuses =
                          [\<lparr>core_ContainerStatus.Name = containerName,
                            core_ContainerStatus.State = \<lparr>Running = None\<rparr>,
                            Ready = False,
                            RestartCount = 0,
                            ContainerID = ID container,
                            Started = None\<rparr>]\<rparr>\<rparr>
           in if containerState = ''running'' then
                (let ready = True
                 in Return (pod\<lparr>Status := \<lparr>Phase = PodRunning,
                      ContainerStatuses = (ContainerStatuses (Status pod))
                        [0 := (ContainerStatuses (Status pod) ! 0)
                           \<lparr>Ready := ready, Started := Some ready,
                            core_ContainerStatus.State :=
                              \<lparr>Running = Some \<lparr>StartedAt = Unix (Created container)\<rparr>\<rparr>\<rparr>]\<rparr>\<rparr>))
              else Return (pod\<lparr>Status := (Status pod)\<lparr>Phase := PodUnknown\<rparr>\<rparr>)))"

subsection \<open>Field mappers\<close>

text \<open>
  \<^verbatim>\<open>setResourceRequirements\<close> (lines 131 to 156). Each of the two loops ranges over
  a resource list and, by the name of the resource, stores into one field of the
  local \<^verbatim>\<open>container.Resources\<close>, which starts as the zero value.
\<close>

fun range_Requests :: "container_Resources \<Rightarrow> core_ResourceList \<Rightarrow> container_Resources" where
  "range_Requests resourceRequirements [] = resourceRequirements"
| "range_Requests resourceRequirements ((resourceName, quantity) # rest) =
     range_Requests
       (if resourceName = ResourceCPU then
          resourceRequirements\<lparr>CPUShares := MilliValue quantity\<rparr>
        else if resourceName = ResourceMemory then
          resourceRequirements\<lparr>MemoryReservation := resource_Quantity.Value quantity\<rparr>
        else resourceRequirements)
       rest"

fun range_Limits :: "container_Resources \<Rightarrow> core_ResourceList \<Rightarrow> container_Resources" where
  "range_Limits resourceRequirements [] = resourceRequirements"
| "range_Limits resourceRequirements ((resourceName, quantity) # rest) =
     range_Limits
       (if resourceName = ResourceCPU then
          resourceRequirements\<lparr>NanoCPUs := MilliValue quantity * 1000000\<rparr>
        else if resourceName = ResourceMemory then
          resourceRequirements\<lparr>Memory := resource_Quantity.Value quantity\<rparr>
        else resourceRequirements)
       rest"

definition setResourceRequirements ::
  "container_HostConfig \<Rightarrow> core_ResourceRequirements \<Rightarrow> container_HostConfig" where
  "setResourceRequirements hostConfig resources =
     (let resourceRequirements = zero_Resources;
          resourceRequirements =
            (case Requests resources of
               None \<Rightarrow> resourceRequirements
             | Some requests \<Rightarrow> range_Requests resourceRequirements requests);
          resourceRequirements =
            (case Limits resources of
               None \<Rightarrow> resourceRequirements
             | Some limits \<Rightarrow> range_Limits resourceRequirements limits)
      in hostConfig\<lparr>container_HostConfig.Resources := resourceRequirements\<rparr>)"

text \<open>
  \<^verbatim>\<open>setHostPorts\<close> (lines 194 to 219). The loop fills two local maps and returns
  at the first port that \<^verbatim>\<open>nat.NewPort\<close> refuses; the two configurations are
  assigned only after the loop.
\<close>

fun range_ports ::
  "DockerAPIConverter \<Rightarrow> (string \<rightharpoonup> nat_PortBinding list) \<Rightarrow> string set \<Rightarrow> core_ContainerPort list
    \<Rightarrow> error + ((string \<rightharpoonup> nat_PortBinding list) \<times> string set)" where
  "range_ports converter containerPortMaps containerExposedPorts [] =
     Inr (containerPortMaps, containerExposedPorts)"
| "range_ports converter containerPortMaps containerExposedPorts (port # ports) =
     (if core_ContainerPort.HostPort port \<noteq> 0 then
        (case nat_NewPort converter (Protocol port) (Itoa (sint (ContainerPort port))) of
           Inl err \<Rightarrow> Inl err
         | Inr containerPort \<Rightarrow>
             (let hostBinding = \<lparr>HostIP = ''0.0.0.0'',
                    nat_PortBinding.HostPort = Itoa (sint (core_ContainerPort.HostPort port))\<rparr>
              in range_ports converter
                   (containerPortMaps(containerPort \<mapsto> [hostBinding]))
                   (insert containerPort containerExposedPorts) ports))
      else range_ports converter containerPortMaps containerExposedPorts ports)"

definition setHostPorts ::
  "DockerAPIConverter \<Rightarrow> container_Config \<Rightarrow> container_HostConfig \<Rightarrow> core_ContainerPort list
    \<Rightarrow> (container_Config \<times> container_HostConfig) \<times> error option" where
  "setHostPorts converter containerConfig hostConfig ports =
     (case range_ports converter Map.empty {} ports of
        Inl err \<Rightarrow> ((containerConfig, hostConfig), Some err)
      | Inr (containerPortMaps, containerExposedPorts) \<Rightarrow>
          ((containerConfig\<lparr>ExposedPorts := containerExposedPorts\<rparr>,
            hostConfig\<lparr>PortBindings := containerPortMaps\<rparr>), None))"

text \<open>\<^verbatim>\<open>setRestartPolicy\<close> (lines 303 to 312).\<close>

definition setRestartPolicy :: "container_HostConfig \<Rightarrow> string \<Rightarrow> container_HostConfig" where
  "setRestartPolicy hostConfig restartPolicy =
     (if restartPolicy = ''OnFailure'' then
        hostConfig\<lparr>container_HostConfig.RestartPolicy := \<lparr>container_RestartPolicy.Name = ''on-failure''\<rparr>\<rparr>
      else if restartPolicy = ''Never'' then
        hostConfig\<lparr>container_HostConfig.RestartPolicy := \<lparr>container_RestartPolicy.Name = ''no''\<rparr>\<rparr>
      else
        hostConfig\<lparr>container_HostConfig.RestartPolicy := \<lparr>container_RestartPolicy.Name = ''always''\<rparr>\<rparr>)"

text \<open>\<^verbatim>\<open>setCommandAndArgs\<close> (lines 317 to 325).\<close>

definition setCommandAndArgs :: "container_Config \<Rightarrow> string list \<Rightarrow> string list \<Rightarrow> container_Config" where
  "setCommandAndArgs containerConfig command args =
     (let containerConfig =
            (if length command > 0 then containerConfig\<lparr>Entrypoint := command\<rparr> else containerConfig)
      in if length args > 0 then containerConfig\<lparr>Cmd := args\<rparr> else containerConfig)"

text \<open>
  \<^verbatim>\<open>setSecurityContext\<close> (lines 330 to 346). The function returns as soon as the
  pod-level context is \<^verbatim>\<open>nil\<close>, before it looks at the container-level one.
\<close>

definition setSecurityContext ::
  "container_Config \<Rightarrow> container_HostConfig \<Rightarrow> core_PodSecurityContext option
    \<Rightarrow> core_SecurityContext option \<Rightarrow> container_Config \<times> container_HostConfig" where
  "setSecurityContext config hostConfig podSecurityContext containerSecurityContext =
     (case podSecurityContext of
        None \<Rightarrow> (config, hostConfig)
      | Some psc \<Rightarrow>
          (let config =
                 (case (RunAsUser psc, RunAsGroup psc) of
                    (Some uid, Some gid) \<Rightarrow>
                      config\<lparr>User := Itoa (sint uid) @ '':'' @ Itoa (sint gid)\<rparr>
                  | _ \<Rightarrow> config)
           in case containerSecurityContext of
                None \<Rightarrow> (config, hostConfig)
              | Some csc \<Rightarrow>
                  (case core_SecurityContext.Privileged csc of
                     None \<Rightarrow> (config, hostConfig)
                   | Some privileged \<Rightarrow>
                       (config, hostConfig\<lparr>container_HostConfig.Privileged := privileged\<rparr>))))"

subsection \<open>Reference resolver\<close>

text \<open>
  Appending the binds of a bind mapping (the loops at lines 181, 395 and 410): one
  bind \<^verbatim>\<open>"<hostBind>:<path.Join(root, containerBind)>"\<close> per entry.
\<close>

fun range_binds ::
  "DockerAPIConverter \<Rightarrow> string \<Rightarrow> container_HostConfig \<Rightarrow> (string \<times> string) list
    \<Rightarrow> container_HostConfig" where
  "range_binds converter root hostConfig [] = hostConfig"
| "range_binds converter root hostConfig ((containerBind, hostBind) # rest) =
     (let bind = hostBind @ '':'' @ path_Join converter root containerBind
      in range_binds converter root (hostConfig\<lparr>Binds := Binds hostConfig @ [bind]\<rparr>) rest)"

text \<open>\<^verbatim>\<open>setServiceAccountTokenAndCACert\<close> (lines 170 to 187).\<close>

definition setServiceAccountTokenAndCACert ::
  "DockerAPIConverter \<Rightarrow> container_HostConfig \<Rightarrow> container_HostConfig \<times> error option" where
  "setServiceAccountTokenAndCACert converter hostConfig =
     (case GetSecret converter (K2dServiceAccountSecretName converter) of
        Inl err \<Rightarrow>
          (hostConfig,
           Some (Errorf (''unable to get secret '' @ K2dServiceAccountSecretName converter @ '': '') err))
      | Inr secret \<Rightarrow>
          (case GetSecretBinds converter secret of
             Inl err \<Rightarrow>
               (hostConfig,
                Some (Errorf (''unable to get binds for secrets '' @
                  K2dServiceAccountSecretName converter @ '': '') err))
           | Inr binds \<Rightarrow>
               (range_binds converter ''/var/run/secrets/kubernetes.io/serviceaccount/'' hostConfig binds,
                None)))"

text \<open>Appending one \<^verbatim>\<open>"<key>=<value>"\<close> per entry of a resource's data (lines 262 and 271).\<close>

fun range_Data :: "container_Config \<Rightarrow> (string \<times> string) list \<Rightarrow> container_Config" where
  "range_Data containerConfig [] = containerConfig"
| "range_Data containerConfig ((key, val) # rest) =
     range_Data
       (containerConfig\<lparr>container_Config.Env := container_Config.Env containerConfig @ [key @ ''='' @ val]\<rparr>)
       rest"

text \<open>\<^verbatim>\<open>handleValueFromEnvFromSource\<close> (lines 255 to 277).\<close>

definition handleValueFromEnvFromSource ::
  "DockerAPIConverter \<Rightarrow> container_Config \<Rightarrow> core_EnvFromSource \<Rightarrow> container_Config \<times> error option" where
  "handleValueFromEnvFromSource converter containerConfig env =
     (case ConfigMapRef env of
        Some ref \<Rightarrow>
          (case GetConfigMap converter (core_ConfigMapEnvSource.Name ref) of
             Inl err \<Rightarrow>
               (containerConfig,
                Some (Errorf (''unable to get configmap '' @ core_ConfigMapEnvSource.Name ref @ '': '') err))
           | Inr configMap \<Rightarrow> (range_Data containerConfig (core_ConfigMap.Data configMap), None))
      | None \<Rightarrow>
          (case SecretRef env of
             Some ref \<Rightarrow>
               (case GetSecret converter (core_SecretEnvSource.Name ref) of
                  Inl err \<Rightarrow>
                    (containerConfig,
                     Some (Errorf (''unable to get secret '' @ core_SecretEnvSource.Name ref @ '': '') err))
                | Inr secret \<Rightarrow> (range_Data containerConfig (core_Secret.Data secret), None))
           | None \<Rightarrow> (containerConfig, None)))"

text \<open>
  \<^verbatim>\<open>handleValueFromEnvVars\<close> (lines 282 to 299). It dereferences
  \<^verbatim>\<open>env.ValueFrom\<close>, which its one caller has checked.
\<close>

definition handleValueFromEnvVars ::
  "DockerAPIConverter \<Rightarrow> container_Config \<Rightarrow> core_EnvVar \<Rightarrow> (container_Config \<times> error option) outcome" where
  "handleValueFromEnvVars converter containerConfig env =
     (case ValueFrom env of
        None \<Rightarrow> Panic NilPointerDereference
      | Some valueFrom \<Rightarrow>
          (case ConfigMapKeyRef valueFrom of
             Some ref \<Rightarrow>
               (case GetConfigMap converter (core_ConfigMapKeySelector.Name ref) of
                  Inl err \<Rightarrow>
                    Return (containerConfig,
                      Some (Errorf (''unable to get configmap '' @ core_ConfigMapKeySelector.Name ref @ '': '') err))
                | Inr configMap \<Rightarrow>
                    Return (containerConfig\<lparr>container_Config.Env :=
                        container_Config.Env containerConfig @
                          [core_EnvVar.Name env @ ''='' @
                             index_entries (core_ConfigMap.Data configMap) (core_ConfigMapKeySelector.Key ref)]\<rparr>,
                      None))
           | None \<Rightarrow>
               (case SecretKeyRef valueFrom of
                  Some ref \<Rightarrow>
                    (case GetSecret converter (core_SecretKeySelector.Name ref) of
                       Inl err \<Rightarrow>
                         Return (containerConfig,
                           Some (Errorf (''unable to get secret '' @ core_SecretKeySelector.Name ref @ '': '') err))
                     | Inr secret \<Rightarrow>
                         Return (containerConfig\<lparr>container_Config.Env :=
                             container_Config.Env containerConfig @
                               [core_EnvVar.Name env @ ''='' @
                                  index_entries (core_Secret.Data secret) (core_SecretKeySelector.Key ref)]\<rparr>,
                           None))
                | None \<Rightarrow> Return (containerConfig, None))))"

text \<open>\<^verbatim>\<open>setEnvVars\<close> (lines 224 to 243): the loop over \<^verbatim>\<open>envs\<close>, then the loop over \<^verbatim>\<open>envFrom\<close>.\<close>

fun range_envs ::
  "DockerAPIConverter \<Rightarrow> container_Config \<Rightarrow> core_EnvVar list \<Rightarrow> (container_Config \<times> error option) outcome" where
  "range_envs converter containerConfig [] = Return (containerConfig, None)"
| "range_envs converter containerConfig (env # envs) =
     (if ValueFrom env \<noteq> None then
        (case handleValueFromEnvVars converter containerConfig env of
           Panic p \<Rightarrow> Panic p
         | Return (containerConfig, Some err) \<Rightarrow> Return (containerConfig, Some err)
         | Return (containerConfig, None) \<Rightarrow> range_envs converter containerConfig envs)
      else
        range_envs converter
          (containerConfig\<lparr>container_Config.Env :=
             container_Config.Env containerConfig @ [core_EnvVar.Name env @ ''='' @ core_EnvVar.Value env]\<rparr>)
          envs)"

fun range_envFrom ::
  "DockerAPIConverter \<Rightarrow> container_Config \<Rightarrow> core_EnvFromSource list \<Rightarrow> container_Config \<times> error option" where
  "range_envFrom converter containerConfig [] = (containerConfig, None)"
| "range_envFrom converter containerConfig (env # envFrom) =
     (case handleValueFromEnvFromSource converter containerConfig env of
        (containerConfig, Some err) \<Rightarrow> (containerConfig, Some err)
      | (containerConfig, None) \<Rightarrow> range_envFrom converter containerConfig envFrom)"

definition setEnvVars ::
  "DockerAPIConverter \<Rightarrow> container_Config \<Rightarrow> core_EnvVar list \<Rightarrow> core_EnvFromSource list
    \<Rightarrow> (container_Config \<times> error option) outcome" where
  "setEnvVars converter containerConfig envs envFrom =
     (case range_envs converter containerConfig envs of
        Panic p \<Rightarrow> Panic p
      | Return (containerConfig, Some err) \<Rightarrow> Return (containerConfig, Some err)
      | Return (containerConfig, None) \<Rightarrow> Return (range_envFrom converter containerConfig envFrom))"

text \<open>
  \<^verbatim>\<open>handleVolumeSource\<close> (lines 383 to 419). In the secret branch the message of
  the second error is built from \<^verbatim>\<open>volume.VolumeSource.ConfigMap.Name\<close> (line 407):
  a dereference of the config-map pointer.
\<close>

definition handleVolumeSource ::
  "DockerAPIConverter \<Rightarrow> container_HostConfig \<Rightarrow> core_Volume \<Rightarrow> core_VolumeMount
    \<Rightarrow> (container_HostConfig \<times> error option) outcome" where
  "handleVolumeSource converter hostConfig volume volumeMount =
     (case ConfigMap volume of
        Some cm \<Rightarrow>
          (case GetConfigMap converter (core_ConfigMapVolumeSource.Name cm) of
             Inl err \<Rightarrow>
               Return (hostConfig,
                 Some (Errorf (''unable to get configmap '' @ core_ConfigMapVolumeSource.Name cm @ '': '') err))
           | Inr configMap \<Rightarrow>
               (case GetConfigMapBinds converter configMap of
                  Inl err \<Rightarrow>
                    Return (hostConfig,
                      Some (Errorf (''unable to get binds for configmap '' @
                        core_ConfigMapVolumeSource.Name cm @ '': '') err))
                | Inr binds \<Rightarrow>
                    Return (range_binds converter (MountPath volumeMount) hostConfig binds, None)))
      | None \<Rightarrow>
          (case Secret volume of
             Some sec \<Rightarrow>
               (case GetSecret converter (SecretName sec) of
                  Inl err \<Rightarrow>
                    Return (hostConfig, Some (Errorf (''unable to get secret '' @ SecretName sec @ '': '') err))
                | Inr secret \<Rightarrow>
                    (case GetSecretBinds converter secret of
                       Inl err \<Rightarrow>
                         (case ConfigMap volume of
                            None \<Rightarrow> Panic NilPointerDereference
                          | Some cm \<Rightarrow>
                              Return (hostConfig,
                                Some (Errorf (''unable to get binds for secrets '' @
                                  core_ConfigMapVolumeSource.Name cm @ '': '') err)))
                     | Inr binds \<Rightarrow>
                         Return (range_binds converter (MountPath volumeMount) hostConfig binds, None)))
           | None \<Rightarrow>
               (case HostPath volume of
                  Some hp \<Rightarrow>
                    (let bind = Path hp @ '':'' @ MountPath volumeMount
                     in Return (hostConfig\<lparr>Binds := Binds hostConfig @ [bind]\<rparr>, None))
                | None \<Rightarrow> Return (hostConfig, None))))"

text \<open>
  \<^verbatim>\<open>setVolumeMounts\<close> (lines 351 to 363). The outer loop ranges over the declared
  volumes, the inner one over the volume mounts; the inner loop hands the first
  mount that carries the volume's name to \<^verbatim>\<open>handleVolumeSource\<close> and then
  breaks (or returns the error).
\<close>

fun range_volumeMounts ::
  "DockerAPIConverter \<Rightarrow> container_HostConfig \<Rightarrow> core_Volume \<Rightarrow> core_VolumeMount list
    \<Rightarrow> (container_HostConfig \<times> error option) outcome" where
  "range_volumeMounts converter hostConfig volume [] = Return (hostConfig, None)"
| "range_volumeMounts converter hostConfig volume (volumeMount # volumeMounts) =
     (if core_VolumeMount.Name volumeMount = core_Volume.Name volume then
        handleVolumeSource converter hostConfig volume volumeMount
      else range_volumeMounts converter hostConfig volume volumeMounts)"

fun setVolumeMounts ::
  "DockerAPIConverter \<Rightarrow> container_HostConfig \<Rightarrow> core_Volume list \<Rightarrow> core_VolumeMount list
    \<Rightarrow> (container_HostConfig \<times> error option) outcome" where
  "setVolumeMounts converter hostConfig [] volumeMounts = Return (hostConfig, None)"
| "setVolumeMounts converter hostConfig (volume # volumes) volumeMounts =
     (case range_volumeMounts converter hostConfig volume volumeMounts of
        Panic p \<Rightarrow> Panic p
      | Return (hostConfig, Some err) \<Rightarrow> Return (hostConfig, Some err)
      | Return (hostConfig, None) \<Rightarrow> setVolumeMounts converter hostConfig volumes volumeMounts)"

subsection \<open>The forward converter\<close>

text \<open>
  \<^verbatim>\<open>ConvertPodSpecToContainerConfiguration\<close> (lines 78 to 126).
  \<^verbatim>\<open>spec.Containers[0]\<close> is read first: on an empty slice the function panics.
  Every error return gives back \<^verbatim>\<open>ContainerConfiguration{}\<close> with the error.
\<close>

definition ConvertPodSpecToContainerConfiguration ::
  "DockerAPIConverter \<Rightarrow> core_PodSpec \<Rightarrow> (string \<rightharpoonup> string)
    \<Rightarrow> (ContainerConfiguration \<times> error option) outcome" where
  "ConvertPodSpecToContainerConfiguration converter spec labels =
     (case Containers spec of
        [] \<Rightarrow> Panic IndexOutOfRange
      | containerSpec # _ \<Rightarrow>
          (let containerConfig = zero_Config
                 \<lparr>container_Config.Env :=
                    [''KUBERNETES_SERVICE_HOST='' @ ServerIpAddr converter,
                     ''KUBERNETES_SERVICE_PORT='' @ Itoa (ServerPort converter)],
                  container_Config.Image := core_Container.Image containerSpec,
                  container_Config.Labels := labels\<rparr>;
               hostConfig = zero_HostConfig
                 \<lparr>ExtraHosts := [''kubernetes.default.svc:'' @ ServerIpAddr converter]\<rparr>
           in case setServiceAccountTokenAndCACert converter hostConfig of
                (hostConfig, Some err) \<Rightarrow> Return (zero_ContainerConfiguration, Some err)
              | (hostConfig, None) \<Rightarrow>
           (case setHostPorts converter containerConfig hostConfig (Ports containerSpec) of
                ((containerConfig, hostConfig), Some err) \<Rightarrow> Return (zero_ContainerConfiguration, Some err)
              | ((containerConfig, hostConfig), None) \<Rightarrow>
           (case setEnvVars converter containerConfig (core_Container.Env containerSpec) (EnvFrom containerSpec) of
                Panic p \<Rightarrow> Panic p
              | Return (containerConfig, Some err) \<Rightarrow> Return (zero_ContainerConfiguration, Some err)
              | Return (containerConfig, None) \<Rightarrow>
           (let containerConfig = setCommandAndArgs containerConfig (Command containerSpec) (Args containerSpec);
                hostConfig = setRestartPolicy hostConfig (core_PodSpec.RestartPolicy spec);
                (containerConfig, hostConfig) =
                  setSecurityContext containerConfig hostConfig (core_PodSpec.SecurityContext spec)
                    (core_Container.SecurityContext containerSpec);
                hostConfig = setResourceRequirements hostConfig (core_Container.Resources containerSpec)
            in case setVolumeMounts converter hostConfig (Volumes spec) (VolumeMounts containerSpec) of
                 Panic p \<Rightarrow> Panic p
               | Return (hostConfig, Some err) \<Rightarrow> Return (zero_ContainerConfiguration, Some err)
               | Return (hostConfig, None) \<Rightarrow>
                   Return (\<lparr>ContainerConfig = Some containerConfig,
                            HostConfig = Some hostConfig,
                            NetworkConfig = Some \<lparr>EndpointsConfig = [K2DNetworkName converter \<mapsto> ()]\<rparr>\<rparr>,
                           None))))))"

subsection \<open>Sample collaborators\<close>

text \<open>
  A converter to evaluate the functions at concrete inputs. Its secret store holds
  the service-account secret and a secret \<open>tls\<close> (whose bind mapping it fails to
  produce), its config-map store holds \<open>app-config\<close>; every other name is not
  found. \<open>sample_Join\<close> is \<^verbatim>\<open>path.Join\<close> on two clean elements, \<open>sample_NewPort\<close>
  is \<^verbatim>\<open>nat.NewPort\<close> on a port number in range.
\<close>

definition sample_Join :: "string \<Rightarrow> string \<Rightarrow> string" where
  "sample_Join root name =
     (if root \<noteq> [] \<and> last root = CHR ''/'' then root @ name else root @ ''/'' @ name)"

definition sample_NewPort :: "string \<Rightarrow> string \<Rightarrow> error + string" where
  "sample_NewPort proto port = Inr (port @ ''/'' @ proto)"

definition sample_converter :: DockerAPIConverter where
  "sample_converter =
     \<lparr>ServerIpAddr = ''10.0.0.1'',
      ServerPort = 6443,
      GetSecret = (\<lambda>name.
        if name = ''k2d-serviceaccount'' then
          Inr \<lparr>core_Secret.Name = name, core_Secret.Data = [(''token'', ''abc'')]\<rparr>
        else if name = ''tls'' then
          Inr \<lparr>core_Secret.Name = name, core_Secret.Data = [(''tls.key'', ''k'')]\<rparr>
        else Inl (External ''NotFound'')),
      GetSecretBinds = (\<lambda>secret.
        if core_Secret.Name secret = ''k2d-serviceaccount'' then
          Inr [(''token'', ''/var/lib/k2d/secrets/k2d-serviceaccount-k2dsec-token'')]
        else Inl (External ''BindResolutionFailure'')),
      GetConfigMap = (\<lambda>name.
        if name = ''app-config'' then
          Inr \<lparr>core_ConfigMap.Name = name, core_ConfigMap.Data = [(''A'', ''1''), (''B'', ''2'')]\<rparr>
        else Inl (External ''NotFound'')),
      GetConfigMapBinds = (\<lambda>configMap.
        Inr (map (\<lambda>(key, val).
          (key, ''/var/lib/k2d/configmaps/'' @ core_ConfigMap.Name configMap @ ''-k2dcm-'' @ key))
          (core_ConfigMap.Data configMap))),
      K2dServiceAccountSecretName = ''k2d-serviceaccount'',
      WorkloadLastAppliedConfigLabelKey = ''workload.k2d.io/last-applied-configuration'',
      K2DNetworkName = ''k2d_net'',
      path_Join = sample_Join,
      nat_NewPort = sample_NewPort\<rparr>"

text \<open>A stopped and a running container, and a converter whose service-account secret is absent.\<close>

definition sample_container :: "string \<Rightarrow> types_Container" where
  "sample_container state =
     \<lparr>ID = ''4f2a'', Names = [''/web''], types_Container.Image = ''nginx'', Created = 1700000000,
      types_Container.State = state, types_Container.Labels = Map.empty\<rparr>"

definition converter_without_account :: DockerAPIConverter where
  "converter_without_account = sample_converter\<lparr>K2dServiceAccountSecretName := ''absent''\<rparr>"

text \<open>
  Three pod specifications: one whose only security context is the container-level
  one, one that mounts the secret \<open>tls\<close>, and one that mounts a host path twice.
\<close>

definition privileged_spec :: core_PodSpec where
  "privileged_spec = zero_PodSpec\<lparr>Containers :=
     [zero_Container\<lparr>core_Container.Image := ''nginx'',
        core_Container.SecurityContext := Some \<lparr>core_SecurityContext.Privileged = Some True\<rparr>\<rparr>]\<rparr>"

definition secret_volume_spec :: core_PodSpec where
  "secret_volume_spec = zero_PodSpec
     \<lparr>Volumes := [\<lparr>core_Volume.Name = ''certs'', ConfigMap = None,
         Secret = Some \<lparr>SecretName = ''tls''\<rparr>, HostPath = None\<rparr>],
      Containers := [zero_Container\<lparr>core_Container.Image := ''nginx'',
         VolumeMounts := [\<lparr>core_VolumeMount.Name = ''certs'', MountPath = ''/etc/certs''\<rparr>]\<rparr>]\<rparr>"

definition data_volume :: "string \<Rightarrow> core_Volume" where
  "data_volume dir = \<lparr>core_Volume.Name = ''data'', ConfigMap = None, Secret = None,
     HostPath = Some \<lparr>Path = dir\<rparr>\<rparr>"

definition mount_at :: "string \<Rightarrow> string \<Rightarrow> core_VolumeMount" where
  "mount_at name dir = \<lparr>core_VolumeMount.Name = name, MountPath = dir\<rparr>"

text \<open>
  Three container ports, the second of them with no host port, and the port that
  \<open>sample_NewPort\<close> makes of a container port. Two environment entries that take their
  value from a key of a config map and of a secret.
\<close>

definition sample_ports :: "core_ContainerPort list" where
  "sample_ports =
     [\<lparr>Protocol = ''TCP'', ContainerPort = 80, core_ContainerPort.HostPort = 8080\<rparr>,
      \<lparr>Protocol = ''UDP'', ContainerPort = 53, core_ContainerPort.HostPort = 0\<rparr>,
      \<lparr>Protocol = ''TCP'', ContainerPort = 443, core_ContainerPort.HostPort = 8443\<rparr>]"


definition configmap_env :: "string \<Rightarrow> string \<Rightarrow> string \<Rightarrow> core_EnvVar" where
  "configmap_env name resource key =
     \<lparr>core_EnvVar.Name = name, core_EnvVar.Value = '''',
      ValueFrom = Some \<lparr>ConfigMapKeyRef =
          Some \<lparr>core_ConfigMapKeySelector.Name = resource, core_ConfigMapKeySelector.Key = key\<rparr>,
        SecretKeyRef = None\<rparr>\<rparr>"

definition secret_env :: "string \<Rightarrow> string \<Rightarrow> string \<Rightarrow> core_EnvVar" where
  "secret_env name resource key =
     \<lparr>core_EnvVar.Name = name, core_EnvVar.Value = '''',
      ValueFrom = Some \<lparr>ConfigMapKeyRef = None,
        SecretKeyRef =
          Some \<lparr>core_SecretKeySelector.Name = resource, core_SecretKeySelector.Key = key\<rparr>\<rparr>\<rparr>"

text \<open>
  A pod with a literal environment entry followed by a given entry, and a pod that
  publishes the sample ports, has a literal environment entry and mounts the secret
  \<open>tls\<close>.
\<close>

definition env_spec :: "core_EnvVar \<Rightarrow> core_PodSpec" where
  "env_spec entry = zero_PodSpec\<lparr>Containers :=
     [zero_Container\<lparr>core_Container.Image := ''nginx'', Ports := sample_ports,
        core_Container.Env :=
          [\<lparr>core_EnvVar.Name = ''LOG'', core_EnvVar.Value = ''debug'', ValueFrom = None\<rparr>, entry]\<rparr>]\<rparr>"

definition published_secret_volume_spec :: core_PodSpec where
  "published_secret_volume_spec = zero_PodSpec
     \<lparr>Volumes := [\<lparr>core_Volume.Name = ''certs'', ConfigMap = None,
         Secret = Some \<lparr>SecretName = ''tls''\<rparr>, HostPath = None\<rparr>],
      Containers := [zero_Container\<lparr>core_Container.Image := ''nginx'',
         Ports := sample_ports,
         core_Container.Env :=
           [\<lparr>core_EnvVar.Name = ''LOG'', core_EnvVar.Value = ''debug'', ValueFrom = None\<rparr>],
         VolumeMounts := [mount_at ''certs'' ''/etc/certs'']\<rparr>]\<rparr>"

subsection \<open>Notions used in the statements\<close>

text \<open>The entries a \<^verbatim>\<open>range\<close> loop visits: none for a \<^verbatim>\<open>nil\<close> map.\<close>

definition entries_of :: "core_ResourceList option \<Rightarrow> core_ResourceList" where
  "entries_of list = (case list of None \<Rightarrow> [] | Some l \<Rightarrow> l)"

section \<open>Decimal rendering of the sample numbers\<close>

lemma Itoa_samples:
  "Itoa 80 = ''80''" "Itoa 443 = ''443''" "Itoa 8080 = ''8080''" "Itoa 8443 = ''8443''"
  "Itoa 53 = ''53''" "Itoa 1000 = ''1000''" "Itoa 6443 = ''6443''"
  by (simp_all add: Itoa_def FormatUint.simps digit_def)

section \<open>The reverse converter: properties\<close>

lemma TrimPrefix_slash:
  "TrimPrefix n ''/'' = (case n of [] \<Rightarrow> [] | c # rest \<Rightarrow> if c = CHR ''/'' then rest else n)"
  by (cases n) (simp_all add: TrimPrefix_def)

text \<open>
  Claim C6. For a container descriptor that has a name, the pod is named by the first
  name with one leading \<open>/\<close> stripped, it has a single container status whose restart
  count is zero, and the lifecycle state decides the rest: \<open>running\<close> gives the phase
  Running, ready and started both true and a running state that started at the
  container's creation time; any other state gives the phase Unknown with none of
  the three set.
\<close>

theorem ConvertContainerToPod_phase_mapping:
  assumes "Names container = name0 # names"
  shows "\<exists>pod st. ConvertContainerToPod converter container = Return pod
     \<and> metav1_ObjectMeta.Name (ObjectMeta pod) =
         (case name0 of [] \<Rightarrow> [] | c # rest \<Rightarrow> if c = CHR ''/'' then rest else name0)
     \<and> ContainerStatuses (Status pod) = [st]
     \<and> RestartCount st = 0
     \<and> (if types_Container.State container = ''running''
         then Phase (Status pod) = PodRunning \<and> Ready st \<and> Started st = Some True
              \<and> Running (core_ContainerStatus.State st) = Some \<lparr>StartedAt = Unix (Created container)\<rparr>
         else Phase (Status pod) = PodUnknown \<and> \<not> Ready st \<and> Started st = None
              \<and> Running (core_ContainerStatus.State st) = None)"
  using assms by (simp add: ConvertContainerToPod_def TrimPrefix_slash Let_def)

theorem ConvertContainerToPod_phase_mapping_witness:
  "Names (sample_container ''running'') = ''/web'' # []
   \<and> (\<exists>pod st. ConvertContainerToPod sample_converter (sample_container ''running'') = Return pod
        \<and> metav1_ObjectMeta.Name (ObjectMeta pod) = ''web''
        \<and> ContainerStatuses (Status pod) = [st] \<and> RestartCount st = 0
        \<and> Phase (Status pod) = ''Running'' \<and> Ready st \<and> Started st = Some True
        \<and> Running (core_ContainerStatus.State st) = Some \<lparr>StartedAt = Unix 1700000000\<rparr>)
   \<and> (\<exists>pod st. ConvertContainerToPod sample_converter (sample_container ''exited'') = Return pod
        \<and> metav1_ObjectMeta.Name (ObjectMeta pod) = ''web''
        \<and> ContainerStatuses (Status pod) = [st] \<and> RestartCount st = 0
        \<and> Phase (Status pod) = ''Unknown'' \<and> \<not> Ready st \<and> Started st = None
        \<and> Running (core_ContainerStatus.State st) = None)"
  using ConvertContainerToPod_phase_mapping [of "sample_container ''running''" "''/web''" "[]" sample_converter]
    ConvertContainerToPod_phase_mapping [of "sample_container ''exited''" "''/web''" "[]" sample_converter]
  by (simp add: sample_container_def PodRunning_def PodUnknown_def)

text \<open>
  Claim C9, as the code has it. The reverse converter has no error result, and it returns
  a pod exactly for the descriptors whose list of names is not empty; on an empty list
  of names it panics at \<^verbatim>\<open>container.Names[0]\<close>.
\<close>

theorem ConvertContainerToPod_returns_iff_named:
  "(\<exists>pod. ConvertContainerToPod converter container = Return pod) = (Names container \<noteq> [])
   \<and> (ConvertContainerToPod converter container = Panic IndexOutOfRange) = (Names container = [])"
  by (cases "Names container") (simp_all add: ConvertContainerToPod_def Let_def)

theorem ConvertContainerToPod_returns_iff_named_witness:
  "(\<exists>pod. ConvertContainerToPod sample_converter (sample_container ''created'') = Return pod)
   \<and> ConvertContainerToPod sample_converter (sample_container ''created'') \<noteq> Panic IndexOutOfRange"
  using ConvertContainerToPod_returns_iff_named [of sample_converter "sample_container ''created''"]
  by (simp add: sample_container_def)

text \<open>The claim as stated fails: a descriptor with no name makes the reverse converter panic.\<close>

theorem ConvertContainerToPod_empty_names_panics:
  "ConvertContainerToPod sample_converter
     \<lparr>ID = ''4f2a'', Names = [], types_Container.Image = ''nginx'', Created = 1700000000,
      types_Container.State = ''running'', types_Container.Labels = Map.empty\<rparr>
   = Panic IndexOutOfRange"
  by (simp add: ConvertContainerToPod_def)

section \<open>The forward converter: properties\<close>

text \<open>
  Claim C10. With an empty container list the forward converter panics at
  \<^verbatim>\<open>spec.Containers[0]\<close>, whatever the rest of the specification and the stores
  are; with a first container, the containers after it do not change the outcome.
\<close>

theorem Convert_reads_first_container_only:
  "ConvertPodSpecToContainerConfiguration converter (spec\<lparr>Containers := []\<rparr>) labels
     = Panic IndexOutOfRange
   \<and> ConvertPodSpecToContainerConfiguration converter (spec\<lparr>Containers := c # cs\<rparr>) labels
     = ConvertPodSpecToContainerConfiguration converter (spec\<lparr>Containers := [c]\<rparr>) labels"
  by (simp add: ConvertPodSpecToContainerConfiguration_def
      cong: prod.case_cong option.case_cong outcome.case_cong)

lemma Convert_error_zero:
  "ConvertPodSpecToContainerConfiguration converter spec labels = Return (bundle, Some err)
   \<Longrightarrow> bundle = zero_ContainerConfiguration"
  unfolding ConvertPodSpecToContainerConfiguration_def Let_def
  by (auto split: list.splits prod.splits option.splits outcome.splits)

lemma Convert_success_populated:
  "ConvertPodSpecToContainerConfiguration converter spec labels = Return (bundle, None)
   \<Longrightarrow> ContainerConfig bundle \<noteq> None \<and> HostConfig bundle \<noteq> None \<and> NetworkConfig bundle \<noteq> None"
  unfolding ConvertPodSpecToContainerConfiguration_def Let_def
  by (auto split: list.splits prod.splits option.splits outcome.splits)

lemma Convert_account_lookup_fails:
  "GetSecret converter (K2dServiceAccountSecretName converter) = Inl e \<Longrightarrow>
   ConvertPodSpecToContainerConfiguration converter (spec\<lparr>Containers := c # cs\<rparr>) labels
     = Return (zero_ContainerConfiguration,
         Some (Errorf (''unable to get secret '' @ K2dServiceAccountSecretName converter @ '': '') e))"
  by (simp add: ConvertPodSpecToContainerConfiguration_def setServiceAccountTokenAndCACert_def)

lemma Convert_account_binds_fail:
  "GetSecret converter (K2dServiceAccountSecretName converter) = Inr accountSecret \<Longrightarrow>
   GetSecretBinds converter accountSecret = Inl e \<Longrightarrow>
   ConvertPodSpecToContainerConfiguration converter (spec\<lparr>Containers := c # cs\<rparr>) labels
     = Return (zero_ContainerConfiguration,
         Some (Errorf (''unable to get binds for secrets '' @ K2dServiceAccountSecretName converter @ '': '') e))"
  by (simp add: ConvertPodSpecToContainerConfiguration_def setServiceAccountTokenAndCACert_def)

lemma Convert_ports_fail:
  "GetSecret converter (K2dServiceAccountSecretName converter) = Inr accountSecret \<Longrightarrow>
   GetSecretBinds converter accountSecret = Inr accountBinds \<Longrightarrow>
   range_ports converter Map.empty {} (Ports c) = Inl e \<Longrightarrow>
   ConvertPodSpecToContainerConfiguration converter (spec\<lparr>Containers := c # cs\<rparr>) labels
     = Return (zero_ContainerConfiguration, Some e)"
  by (simp add: ConvertPodSpecToContainerConfiguration_def setServiceAccountTokenAndCACert_def
      setHostPorts_def)

lemma Convert_volume_step:
  assumes "Containers spec = c # cs"
    and "GetSecret converter (K2dServiceAccountSecretName converter) = Inr accountSecret"
    and "GetSecretBinds converter accountSecret = Inr accountBinds"
    and "range_ports converter Map.empty {} (Ports c) = Inr (portMaps, exposedPorts)"
    and "\<And>containerConfig. \<exists>containerConfig'.
      setEnvVars converter containerConfig (core_Container.Env c) (EnvFrom c) = Return (containerConfig', None)"
  shows "(\<forall>hostConfig. \<exists>hostConfig'.
        setVolumeMounts converter hostConfig (Volumes spec) (VolumeMounts c) = Return (hostConfig', Some e))
      \<longrightarrow> ConvertPodSpecToContainerConfiguration converter spec labels
          = Return (zero_ContainerConfiguration, Some e)"
    and "(\<forall>hostConfig. setVolumeMounts converter hostConfig (Volumes spec) (VolumeMounts c) = Panic p)
      \<longrightarrow> ConvertPodSpecToContainerConfiguration converter spec labels = Panic p"
proof -
  from assms(5) obtain f where f: "\<And>containerConfig.
      setEnvVars converter containerConfig (core_Container.Env c) (EnvFrom c) = Return (f containerConfig, None)"
    by metis
  show "(\<forall>hostConfig. \<exists>hostConfig'.
        setVolumeMounts converter hostConfig (Volumes spec) (VolumeMounts c) = Return (hostConfig', Some e))
      \<longrightarrow> ConvertPodSpecToContainerConfiguration converter spec labels
          = Return (zero_ContainerConfiguration, Some e)"
  proof
    assume "\<forall>hostConfig. \<exists>hostConfig'.
        setVolumeMounts converter hostConfig (Volumes spec) (VolumeMounts c) = Return (hostConfig', Some e)"
    then obtain g where g: "\<And>hostConfig.
        setVolumeMounts converter hostConfig (Volumes spec) (VolumeMounts c) = Return (g hostConfig, Some e)"
      by metis
    show "ConvertPodSpecToContainerConfiguration converter spec labels
          = Return (zero_ContainerConfiguration, Some e)"
      by (simp add: ConvertPodSpecToContainerConfiguration_def assms(1-4)
          setServiceAccountTokenAndCACert_def setHostPorts_def f g split: prod.splits)
  qed
  show "(\<forall>hostConfig. setVolumeMounts converter hostConfig (Volumes spec) (VolumeMounts c) = Panic p)
      \<longrightarrow> ConvertPodSpecToContainerConfiguration converter spec labels = Panic p"
    by (simp add: ConvertPodSpecToContainerConfiguration_def assms(1-4)
        setServiceAccountTokenAndCACert_def setHostPorts_def f split: prod.splits)
qed

lemma Convert_account_absent_example:
  "ConvertPodSpecToContainerConfiguration converter_without_account published_secret_volume_spec Map.empty
     = Return (zero_ContainerConfiguration,
         Some (Errorf ''unable to get secret absent: '' (External ''NotFound'')))"
  using Convert_account_lookup_fails
    [where converter = converter_without_account and e = "External ''NotFound''"
      and spec = published_secret_volume_spec and cs = "[]" and labels = Map.empty
      and c = "zero_Container\<lparr>core_Container.Image := ''nginx'', Ports := sample_ports,
         core_Container.Env :=
           [\<lparr>core_EnvVar.Name = ''LOG'', core_EnvVar.Value = ''debug'', ValueFrom = None\<rparr>],
         VolumeMounts := [mount_at ''certs'' ''/etc/certs'']\<rparr>"]
  by (simp add: converter_without_account_def sample_converter_def published_secret_volume_spec_def)

text \<open>
  Claim C4, at the input where the code departs from it. The lemmas above give the
  claim for the steps that return their failure: an error return always carries the
  zero bundle, and a service-account lookup, service-account bind mapping, port or
  volume step that returns an error makes the conversion return that error with the
  zero bundle (for an environment entry see the last section). Here the pod publishes ports, has an environment entry and
  mounts a volume backed by the secret \<open>tls\<close>, whose bind mapping the store fails
  to produce: the service-account, port and environment steps succeed, the volume
  step fails, and the conversion returns no error and no zero bundle. It panics, at
  the config-map pointer that line 407 reads.
\<close>

theorem Convert_failing_volume_step_returns_no_error:
  "ConvertPodSpecToContainerConfiguration sample_converter published_secret_volume_spec Map.empty
     = Panic NilPointerDereference"
  by (simp add: ConvertPodSpecToContainerConfiguration_def published_secret_volume_spec_def zero_PodSpec_def
      zero_Container_def sample_converter_def setServiceAccountTokenAndCACert_def setHostPorts_def
      sample_ports_def sample_NewPort_def mount_at_def
      setEnvVars_def setCommandAndArgs_def setRestartPolicy_def setSecurityContext_def
      setResourceRequirements_def zero_HostConfig_def zero_Config_def sample_Join_def
      handleVolumeSource_def)

lemma setSecurityContext_no_pod_context:
  "setSecurityContext config hostConfig None containerSecurityContext = (config, hostConfig)"
  by (simp add: setSecurityContext_def)

lemma setSecurityContext_both_contexts:
  "setSecurityContext config hostConfig
     (Some \<lparr>RunAsUser = Some uid, RunAsGroup = Some gid\<rparr>)
     (Some \<lparr>core_SecurityContext.Privileged = Some privileged\<rparr>)
   = (config\<lparr>User := Itoa (sint uid) @ '':'' @ Itoa (sint gid)\<rparr>,
      hostConfig\<lparr>container_HostConfig.Privileged := privileged\<rparr>)"
  by (simp add: setSecurityContext_def)

lemma setSecurityContext_scenario:
  "setSecurityContext zero_Config zero_HostConfig
     (Some \<lparr>RunAsUser = Some 1000, RunAsGroup = Some 1000\<rparr>)
     (Some \<lparr>core_SecurityContext.Privileged = Some True\<rparr>)
   = (zero_Config\<lparr>User := ''1000:1000''\<rparr>,
      zero_HostConfig\<lparr>container_HostConfig.Privileged := True\<rparr>)"
  by (simp add: setSecurityContext_both_contexts Itoa_samples)

text \<open>
  Claim C1, at the input where the code departs from it. The pod has no pod-level
  security context and its container asks for \<open>Privileged: true\<close>; the conversion
  succeeds and the host configuration is not privileged, because
  \<^verbatim>\<open>setSecurityContext\<close> returns at the missing pod-level context.
\<close>

theorem Convert_drops_privileged_without_pod_context:
  "\<exists>bundle hostConfig.
     ConvertPodSpecToContainerConfiguration sample_converter privileged_spec Map.empty
       = Return (bundle, None)
     \<and> HostConfig bundle = Some hostConfig
     \<and> container_HostConfig.Privileged hostConfig = False"
  by (simp add: ConvertPodSpecToContainerConfiguration_def privileged_spec_def zero_PodSpec_def
      zero_Container_def sample_converter_def setServiceAccountTokenAndCACert_def setHostPorts_def
      setEnvVars_def setCommandAndArgs_def setRestartPolicy_def setSecurityContext_def
      setResourceRequirements_def zero_HostConfig_def zero_Config_def sample_Join_def)

lemma handleVolumeSource_secret_bind_failure:
  "ConfigMap volume = None \<Longrightarrow> Secret volume = Some sec \<Longrightarrow>
   GetSecret converter (SecretName sec) = Inr secret \<Longrightarrow>
   GetSecretBinds converter secret = Inl err \<Longrightarrow>
   handleVolumeSource converter hostConfig volume volumeMount = Panic NilPointerDereference"
  by (simp add: handleVolumeSource_def)

lemma handleVolumeSource_configmap_bind_failure:
  "ConfigMap volume = Some cm \<Longrightarrow>
   GetConfigMap converter (core_ConfigMapVolumeSource.Name cm) = Inr configMap \<Longrightarrow>
   GetConfigMapBinds converter configMap = Inl err \<Longrightarrow>
   handleVolumeSource converter hostConfig volume volumeMount
     = Return (hostConfig,
         Some (Errorf (''unable to get binds for configmap '' @ core_ConfigMapVolumeSource.Name cm @ '': '') err))"
  by (simp add: handleVolumeSource_def)

text \<open>
  Claim C3, at the input where the code departs from it. The pod mounts a volume backed
  by the secret \<open>tls\<close>; the store finds the secret and fails to produce its bind
  mapping. The conversion does not return an error: it panics on the \<^verbatim>\<open>nil\<close>
  config-map pointer that line 407 reads to build the error's message.
\<close>

theorem Convert_panics_on_secret_bind_failure:
  "ConvertPodSpecToContainerConfiguration sample_converter secret_volume_spec Map.empty
     = Panic NilPointerDereference"
  by (simp add: ConvertPodSpecToContainerConfiguration_def secret_volume_spec_def zero_PodSpec_def
      zero_Container_def sample_converter_def setServiceAccountTokenAndCACert_def setHostPorts_def
      setEnvVars_def setCommandAndArgs_def setRestartPolicy_def setSecurityContext_def
      setResourceRequirements_def zero_HostConfig_def zero_Config_def sample_Join_def
      handleVolumeSource_def)

section \<open>Resource requirements\<close>

lemma range_Requests_fields:
  "distinct (map fst requests) \<Longrightarrow>
   range_Requests r requests =
     r\<lparr>CPUShares := (case map_of requests ResourceCPU of None \<Rightarrow> CPUShares r | Some q \<Rightarrow> MilliValue q),
       MemoryReservation := (case map_of requests ResourceMemory of None \<Rightarrow> MemoryReservation r
          | Some q \<Rightarrow> resource_Quantity.Value q)\<rparr>"
proof (induction requests arbitrary: r)
  case Nil
  then show ?case by simp
next
  case (Cons a requests)
  obtain n q where a: "a = (n, q)" by (cases a)
  from Cons.prems a have notin: "n \<notin> fst ` set requests" and d: "distinct (map fst requests)" by auto
  have none: "map_of requests n = None" using notin by (simp add: map_of_eq_None_iff)
  show ?case
    using Cons.IH [OF d] none a
    by (auto simp: ResourceCPU_def ResourceMemory_def split: option.splits)
qed

lemma range_Limits_fields:
  "distinct (map fst limits) \<Longrightarrow>
   range_Limits r limits =
     r\<lparr>NanoCPUs := (case map_of limits ResourceCPU of None \<Rightarrow> NanoCPUs r | Some q \<Rightarrow> MilliValue q * 1000000),
       Memory := (case map_of limits ResourceMemory of None \<Rightarrow> Memory r
          | Some q \<Rightarrow> resource_Quantity.Value q)\<rparr>"
proof (induction limits arbitrary: r)
  case Nil
  then show ?case by simp
next
  case (Cons a limits)
  obtain n q where a: "a = (n, q)" by (cases a)
  from Cons.prems a have notin: "n \<notin> fst ` set limits" and d: "distinct (map fst limits)" by auto
  have none: "map_of limits n = None" using notin by (simp add: map_of_eq_None_iff)
  show ?case
    using Cons.IH [OF d] none a
    by (auto simp: ResourceCPU_def ResourceMemory_def split: option.splits)
qed

text \<open>
  Claim C5, as the code has it. The requests and the limits are Go maps, so their keys
  are distinct. The four fields of the host configuration's resources are then: the
  milli-value of the CPU request as the shares, the value of the memory request as the
  reservation, the milli-value of the CPU limit times 1,000,000 (an \<^verbatim>\<open>int64\<close>
  product) as the nano-CPUs, and the value of the memory limit as the memory ceiling.
  A field whose request or limit is absent is zero: the output has no absent state, so
  an absent entry and an entry that is explicitly zero give the same output.
\<close>

theorem setResourceRequirements_fields:
  assumes "distinct (map fst (entries_of (Requests resources)))"
    and "distinct (map fst (entries_of (Limits resources)))"
  shows "container_HostConfig.Resources (setResourceRequirements hostConfig resources) =
     \<lparr>CPUShares = (case map_of (entries_of (Requests resources)) ResourceCPU of
          None \<Rightarrow> 0 | Some q \<Rightarrow> MilliValue q),
      Memory = (case map_of (entries_of (Limits resources)) ResourceMemory of
          None \<Rightarrow> 0 | Some q \<Rightarrow> resource_Quantity.Value q),
      NanoCPUs = (case map_of (entries_of (Limits resources)) ResourceCPU of
          None \<Rightarrow> 0 | Some q \<Rightarrow> MilliValue q * 1000000),
      MemoryReservation = (case map_of (entries_of (Requests resources)) ResourceMemory of
          None \<Rightarrow> 0 | Some q \<Rightarrow> resource_Quantity.Value q)\<rparr>"
  using assms
  by (cases "Requests resources"; cases "Limits resources")
     (simp_all add: setResourceRequirements_def entries_of_def zero_Resources_def Let_def
        range_Requests_fields range_Limits_fields cong: option.case_cong)

theorem setResourceRequirements_fields_witness:
  "distinct (map fst (entries_of (Some [(ResourceCPU, \<lparr>MilliValue = 250, resource_Quantity.Value = 1\<rparr>)])))
   \<and> container_HostConfig.Resources (setResourceRequirements zero_HostConfig
      \<lparr>Limits = Some [(ResourceCPU, \<lparr>MilliValue = 500, resource_Quantity.Value = 1\<rparr>),
                      (ResourceMemory, \<lparr>MilliValue = 134217728000, resource_Quantity.Value = 134217728\<rparr>)],
       Requests = Some [(ResourceCPU, \<lparr>MilliValue = 250, resource_Quantity.Value = 1\<rparr>)]\<rparr>)
   = \<lparr>CPUShares = 250, Memory = 134217728, NanoCPUs = 500000000, MemoryReservation = 0\<rparr>"
  using setResourceRequirements_fields [of
      "\<lparr>Limits = Some [(ResourceCPU, \<lparr>MilliValue = 500, resource_Quantity.Value = 1\<rparr>),
                      (ResourceMemory, \<lparr>MilliValue = 134217728000, resource_Quantity.Value = 134217728\<rparr>)],
       Requests = Some [(ResourceCPU, \<lparr>MilliValue = 250, resource_Quantity.Value = 1\<rparr>)]\<rparr>" zero_HostConfig]
  by (simp add: entries_of_def ResourceCPU_def ResourceMemory_def)

text \<open>
  The claim as stated fails: resource requirements with no request and no limit, and
  resource requirements whose CPU limit and memory request are explicitly zero, give
  the same host configuration.
\<close>

theorem setResourceRequirements_absent_equals_zero:
  "setResourceRequirements zero_HostConfig \<lparr>Limits = None, Requests = None\<rparr>
   = setResourceRequirements zero_HostConfig
       \<lparr>Limits = Some [(ResourceCPU, \<lparr>MilliValue = 0, resource_Quantity.Value = 0\<rparr>)],
        Requests = Some [(ResourceMemory, \<lparr>MilliValue = 0, resource_Quantity.Value = 0\<rparr>)]\<rparr>"
  by (simp add: setResourceRequirements_def zero_Resources_def ResourceCPU_def ResourceMemory_def Let_def)

section \<open>Host ports\<close>







section \<open>Volume mounts\<close>

lemma range_volumeMounts_find:
  "range_volumeMounts converter hostConfig volume volumeMounts =
     (case find (\<lambda>m. core_VolumeMount.Name m = core_Volume.Name volume) volumeMounts of
        None \<Rightarrow> Return (hostConfig, None)
      | Some m \<Rightarrow> handleVolumeSource converter hostConfig volume m)"
  by (induction volumeMounts) auto

lemma find_skip:
  "\<not> P m \<or> (\<exists>m'\<in>set before. P m') \<Longrightarrow> find P (before @ m # after) = find P (before @ after)"
  by (induction before) auto

lemma setVolumeMounts_same_finds:
  "(\<And>v. v \<in> set volumes \<Longrightarrow>
      find (\<lambda>m. core_VolumeMount.Name m = core_Volume.Name v) ms
      = find (\<lambda>m. core_VolumeMount.Name m = core_Volume.Name v) ms') \<Longrightarrow>
   setVolumeMounts converter hostConfig volumes ms = setVolumeMounts converter hostConfig volumes ms'"
  by (induction volumes arbitrary: hostConfig)
     (simp_all add: range_volumeMounts_find cong: outcome.case_cong prod.case_cong option.case_cong)

lemma setVolumeMounts_step:
  "setVolumeMounts converter hostConfig (volume # volumes) volumeMounts =
     (case find (\<lambda>m. core_VolumeMount.Name m = core_Volume.Name volume) volumeMounts of
        None \<Rightarrow> setVolumeMounts converter hostConfig volumes volumeMounts
      | Some m \<Rightarrow>
          (case handleVolumeSource converter hostConfig volume m of
             Return (hostConfig', None) \<Rightarrow> setVolumeMounts converter hostConfig' volumes volumeMounts
           | failure \<Rightarrow> failure))"
  by (simp add: range_volumeMounts_find split: option.splits outcome.splits prod.splits)

text \<open>
  Claim C2, as the code has it. Each declared volume, in the order of declaration, is
  handled through the first volume mount that carries its name, and is skipped when
  no mount carries it; an error or a panic of \<^verbatim>\<open>handleVolumeSource\<close> ends the
  loop. So a mount whose name is no declared volume's changes nothing (no bind, no
  error), and neither does a mount that comes after another mount of the same name:
  of two mounts that reference the same volume only the first produces a bind.
\<close>

theorem setVolumeMounts_first_mount_per_volume:
  "setVolumeMounts converter hostConfig (volume # volumes) volumeMounts =
     (case find (\<lambda>m. core_VolumeMount.Name m = core_Volume.Name volume) volumeMounts of
        None \<Rightarrow> setVolumeMounts converter hostConfig volumes volumeMounts
      | Some m \<Rightarrow>
          (case handleVolumeSource converter hostConfig volume m of
             Return (hostConfig', None) \<Rightarrow> setVolumeMounts converter hostConfig' volumes volumeMounts
           | failure \<Rightarrow> failure))
   \<and> (core_VolumeMount.Name m \<notin> core_Volume.Name ` set volumes \<longrightarrow>
        setVolumeMounts converter hostConfig volumes (before @ m # after)
        = setVolumeMounts converter hostConfig volumes (before @ after))
   \<and> (core_VolumeMount.Name m \<in> core_VolumeMount.Name ` set before \<longrightarrow>
        setVolumeMounts converter hostConfig volumes (before @ m # after)
        = setVolumeMounts converter hostConfig volumes (before @ after))"
proof (intro conjI impI)
  show "setVolumeMounts converter hostConfig (volume # volumes) volumeMounts =
     (case find (\<lambda>m. core_VolumeMount.Name m = core_Volume.Name volume) volumeMounts of
        None \<Rightarrow> setVolumeMounts converter hostConfig volumes volumeMounts
      | Some m \<Rightarrow>
          (case handleVolumeSource converter hostConfig volume m of
             Return (hostConfig', None) \<Rightarrow> setVolumeMounts converter hostConfig' volumes volumeMounts
           | failure \<Rightarrow> failure))"
    by (rule setVolumeMounts_step)
next
  assume "core_VolumeMount.Name m \<notin> core_Volume.Name ` set volumes"
  then have "\<And>v. v \<in> set volumes \<Longrightarrow>
      find (\<lambda>m. core_VolumeMount.Name m = core_Volume.Name v) (before @ m # after)
      = find (\<lambda>m. core_VolumeMount.Name m = core_Volume.Name v) (before @ after)"
    by (intro find_skip) auto
  then show "setVolumeMounts converter hostConfig volumes (before @ m # after)
        = setVolumeMounts converter hostConfig volumes (before @ after)"
    by (rule setVolumeMounts_same_finds)
next
  assume "core_VolumeMount.Name m \<in> core_VolumeMount.Name ` set before"
  then obtain m' where m': "m' \<in> set before" "core_VolumeMount.Name m' = core_VolumeMount.Name m"
    by auto
  have "\<And>v. v \<in> set volumes \<Longrightarrow>
      find (\<lambda>m. core_VolumeMount.Name m = core_Volume.Name v) (before @ m # after)
      = find (\<lambda>m. core_VolumeMount.Name m = core_Volume.Name v) (before @ after)"
    using m' by (intro find_skip) auto
  then show "setVolumeMounts converter hostConfig volumes (before @ m # after)
        = setVolumeMounts converter hostConfig volumes (before @ after)"
    by (rule setVolumeMounts_same_finds)
qed

theorem setVolumeMounts_first_mount_per_volume_witness:
  "core_VolumeMount.Name (mount_at ''cache'' ''/c'') \<notin> core_Volume.Name ` set [data_volume ''/srv/data'']
   \<and> setVolumeMounts sample_converter zero_HostConfig [data_volume ''/srv/data'']
        [mount_at ''cache'' ''/c'', mount_at ''data'' ''/a'']
       = Return (zero_HostConfig\<lparr>Binds := [''/srv/data:/a'']\<rparr>, None)
   \<and> core_VolumeMount.Name (mount_at ''data'' ''/b'') \<in> core_VolumeMount.Name ` set [mount_at ''data'' ''/a'']
   \<and> setVolumeMounts sample_converter zero_HostConfig [data_volume ''/srv/data'']
        [mount_at ''data'' ''/a'', mount_at ''data'' ''/b'']
       = Return (zero_HostConfig\<lparr>Binds := [''/srv/data:/a'']\<rparr>, None)"
proof -
  have unmatched: "core_VolumeMount.Name (mount_at ''cache'' ''/c'')
      \<notin> core_Volume.Name ` set [data_volume ''/srv/data'']"
    by (simp add: mount_at_def data_volume_def)
  have later: "core_VolumeMount.Name (mount_at ''data'' ''/b'')
      \<in> core_VolumeMount.Name ` set [mount_at ''data'' ''/a'']"
    by (simp add: mount_at_def)
  have base: "setVolumeMounts sample_converter zero_HostConfig [data_volume ''/srv/data'']
        [mount_at ''data'' ''/a'']
      = Return (zero_HostConfig\<lparr>Binds := [''/srv/data:/a'']\<rparr>, None)"
    by (simp add: data_volume_def mount_at_def handleVolumeSource_def zero_HostConfig_def)
  have one: "setVolumeMounts sample_converter zero_HostConfig [data_volume ''/srv/data'']
        ([] @ mount_at ''cache'' ''/c'' # [mount_at ''data'' ''/a''])
      = setVolumeMounts sample_converter zero_HostConfig [data_volume ''/srv/data'']
        ([] @ [mount_at ''data'' ''/a''])"
    using setVolumeMounts_first_mount_per_volume
      [of sample_converter zero_HostConfig "data_volume ''/srv/data''" "[data_volume ''/srv/data'']"
        "[]" "mount_at ''cache'' ''/c''" "[]" "[mount_at ''data'' ''/a'']"] unmatched
    by blast
  have two: "setVolumeMounts sample_converter zero_HostConfig [data_volume ''/srv/data'']
        ([mount_at ''data'' ''/a''] @ mount_at ''data'' ''/b'' # [])
      = setVolumeMounts sample_converter zero_HostConfig [data_volume ''/srv/data'']
        ([mount_at ''data'' ''/a''] @ [])"
    using setVolumeMounts_first_mount_per_volume
      [of sample_converter zero_HostConfig "data_volume ''/srv/data''" "[data_volume ''/srv/data'']"
        "[]" "mount_at ''data'' ''/b''" "[mount_at ''data'' ''/a'']" "[]"] later
    by blast
  from unmatched later base one two show ?thesis by simp
qed

text \<open>
  The claim as stated fails. Two mounts reference the one declared volume and only the
  first gets a bind; and of two declared volumes with the same name both are bound,
  through the one mount.
\<close>

theorem setVolumeMounts_second_mount_gets_no_bind:
  "setVolumeMounts sample_converter zero_HostConfig [data_volume ''/srv/data'']
       [mount_at ''data'' ''/a'', mount_at ''data'' ''/b'']
     = Return (zero_HostConfig\<lparr>Binds := [''/srv/data:/a'']\<rparr>, None)
   \<and> setVolumeMounts sample_converter zero_HostConfig [data_volume ''/srv/one'', data_volume ''/srv/two'']
       [mount_at ''data'' ''/a'']
     = Return (zero_HostConfig\<lparr>Binds := [''/srv/one:/a'', ''/srv/two:/a'']\<rparr>, None)"
  by (simp add: data_volume_def mount_at_def handleVolumeSource_def zero_HostConfig_def)

section \<open>Environment entries\<close>

lemma index_entries_absent:
  "k \<notin> fst ` set kvs \<Longrightarrow> index_entries kvs k = []"
proof -
  assume "k \<notin> fst ` set kvs"
  then have "map_of kvs k = None" by (simp add: map_of_eq_None_iff)
  then show ?thesis by (simp add: index_entries_def index_HOLmap_def)
qed

lemma handleValueFromEnvVars_resolution:
  "(ValueFrom env = Some valueFrom \<and> ConfigMapKeyRef valueFrom = Some cref
      \<and> GetConfigMap converter (core_ConfigMapKeySelector.Name cref) = Inl err
    \<longrightarrow> handleValueFromEnvVars converter containerConfig env
        = Return (containerConfig,
            Some (Errorf (''unable to get configmap '' @ core_ConfigMapKeySelector.Name cref @ '': '') err)))
   \<and> (ValueFrom env = Some valueFrom \<and> ConfigMapKeyRef valueFrom = Some cref
      \<and> GetConfigMap converter (core_ConfigMapKeySelector.Name cref) = Inr configMap
      \<and> core_ConfigMapKeySelector.Key cref \<notin> fst ` set (core_ConfigMap.Data configMap)
    \<longrightarrow> handleValueFromEnvVars converter containerConfig env
        = Return (containerConfig\<lparr>container_Config.Env :=
            container_Config.Env containerConfig @ [core_EnvVar.Name env @ ''='']\<rparr>, None))
   \<and> (ValueFrom env = Some valueFrom \<and> ConfigMapKeyRef valueFrom = None \<and> SecretKeyRef valueFrom = Some sref
      \<and> GetSecret converter (core_SecretKeySelector.Name sref) = Inl err
    \<longrightarrow> handleValueFromEnvVars converter containerConfig env
        = Return (containerConfig,
            Some (Errorf (''unable to get secret '' @ core_SecretKeySelector.Name sref @ '': '') err)))
   \<and> (ValueFrom env = Some valueFrom \<and> ConfigMapKeyRef valueFrom = None \<and> SecretKeyRef valueFrom = Some sref
      \<and> GetSecret converter (core_SecretKeySelector.Name sref) = Inr secret
      \<and> core_SecretKeySelector.Key sref \<notin> fst ` set (core_Secret.Data secret)
    \<longrightarrow> handleValueFromEnvVars converter containerConfig env
        = Return (containerConfig\<lparr>container_Config.Env :=
            container_Config.Env containerConfig @ [core_EnvVar.Name env @ ''='']\<rparr>, None))"
  by (simp add: handleValueFromEnvVars_def index_entries_absent)

lemma range_envs_append:
  "range_envs converter containerConfig (pre @ rest) =
     (case range_envs converter containerConfig pre of
        Return (containerConfig', None) \<Rightarrow> range_envs converter containerConfig' rest
      | other \<Rightarrow> other)"
  by (induction pre arbitrary: containerConfig)
     (auto split: outcome.splits prod.splits option.splits)

lemma handleValueFromEnvVars_grows:
  "handleValueFromEnvVars converter containerConfig env = Return (containerConfig', r) \<Longrightarrow>
   set (container_Config.Env containerConfig) \<subseteq> set (container_Config.Env containerConfig')"
  by (auto simp: handleValueFromEnvVars_def split: option.splits sum.splits)

lemma range_envs_grows:
  "range_envs converter containerConfig envs = Return (containerConfig', r) \<Longrightarrow>
   set (container_Config.Env containerConfig) \<subseteq> set (container_Config.Env containerConfig')"
proof (induction envs arbitrary: containerConfig)
  case Nil
  then show ?case by simp
next
  case (Cons env envs)
  show ?case
  proof (cases "ValueFrom env")
    case None
    with Cons.prems have "range_envs converter
        (containerConfig\<lparr>container_Config.Env :=
           container_Config.Env containerConfig @ [core_EnvVar.Name env @ ''='' @ core_EnvVar.Value env]\<rparr>)
        envs = Return (containerConfig', r)"
      by simp
    from Cons.IH [OF this] show ?thesis by auto
  next
    case (Some valueFrom)
    with Cons.prems obtain mid rmid where
      step: "handleValueFromEnvVars converter containerConfig env = Return (mid, rmid)"
      by (auto split: outcome.splits)
    have a: "set (container_Config.Env containerConfig) \<subseteq> set (container_Config.Env mid)"
      using step by (rule handleValueFromEnvVars_grows)
    show ?thesis
    proof (cases rmid)
      case None
      with Cons.prems Some step have "range_envs converter mid envs = Return (containerConfig', r)"
        by simp
      from Cons.IH [OF this] a show ?thesis by blast
    next
      case (Some err)
      with Cons.prems \<open>ValueFrom env = Some valueFrom\<close> step have "containerConfig' = mid" by simp
      with a show ?thesis by simp
    qed
  qed
qed

lemma range_Data_grows:
  "set (container_Config.Env containerConfig) \<subseteq> set (container_Config.Env (range_Data containerConfig kvs))"
proof (induction kvs arbitrary: containerConfig)
  case Nil
  then show ?case by simp
next
  case (Cons kv kvs)
  obtain k v where kv: "kv = (k, v)" by (cases kv)
  have "set (container_Config.Env (containerConfig\<lparr>container_Config.Env :=
            container_Config.Env containerConfig @ [k @ ''='' @ v]\<rparr>))
      \<subseteq> set (container_Config.Env (range_Data (containerConfig\<lparr>container_Config.Env :=
            container_Config.Env containerConfig @ [k @ ''='' @ v]\<rparr>) kvs))"
    by (rule Cons.IH)
  then show ?case using kv by auto
qed

lemma handleValueFromEnvFromSource_grows:
  "handleValueFromEnvFromSource converter containerConfig env = (containerConfig', r) \<Longrightarrow>
   set (container_Config.Env containerConfig) \<subseteq> set (container_Config.Env containerConfig')"
  using range_Data_grows
  by (auto simp: handleValueFromEnvFromSource_def split: option.splits sum.splits)

lemma range_envFrom_grows:
  "range_envFrom converter containerConfig envFrom = (containerConfig', r) \<Longrightarrow>
   set (container_Config.Env containerConfig) \<subseteq> set (container_Config.Env containerConfig')"
proof (induction envFrom arbitrary: containerConfig)
  case Nil
  then show ?case by simp
next
  case (Cons env envFrom)
  obtain mid rmid where step: "handleValueFromEnvFromSource converter containerConfig env = (mid, rmid)"
    by (cases "handleValueFromEnvFromSource converter containerConfig env")
  have a: "set (container_Config.Env containerConfig) \<subseteq> set (container_Config.Env mid)"
    using step by (rule handleValueFromEnvFromSource_grows)
  show ?case
  proof (cases rmid)
    case None
    with Cons.prems step have "range_envFrom converter mid envFrom = (containerConfig', r)" by simp
    from Cons.IH [OF this] a show ?thesis by blast
  next
    case (Some err)
    with Cons.prems step have "containerConfig' = mid" by simp
    with a show ?thesis by simp
  qed
qed

lemma setEnvVars_grows:
  "setEnvVars converter containerConfig envs envFrom = Return (containerConfig', r) \<Longrightarrow>
   set (container_Config.Env containerConfig) \<subseteq> set (container_Config.Env containerConfig')"
  by (auto simp: setEnvVars_def split: outcome.splits prod.splits option.splits
      dest!: range_envs_grows range_envFrom_grows)

lemma setCommandAndArgs_Env:
  "container_Config.Env (setCommandAndArgs containerConfig command args) = container_Config.Env containerConfig"
  by (simp add: setCommandAndArgs_def Let_def)

lemma setSecurityContext_Env:
  "setSecurityContext config hostConfig psc csc = (config', hostConfig') \<Longrightarrow>
   container_Config.Env config' = container_Config.Env config"
  by (auto simp: setSecurityContext_def Let_def split: option.splits)

lemma Convert_success_environment:
  "ConvertPodSpecToContainerConfiguration converter spec labels = Return (bundle, None) \<Longrightarrow>
   \<exists>c cs before after cc. Containers spec = c # cs
     \<and> setEnvVars converter before (core_Container.Env c) (EnvFrom c) = Return (after, None)
     \<and> ContainerConfig bundle = Some cc
     \<and> container_Config.Env cc = container_Config.Env after"
  unfolding ConvertPodSpecToContainerConfiguration_def Let_def
  apply (auto split: list.splits prod.splits option.splits outcome.splits)
  apply (frule setSecurityContext_Env)
  apply (simp only: setCommandAndArgs_Env)
  apply blast
  done

lemma Convert_env_error:
  assumes "Containers spec = c # cs"
    and "GetSecret converter (K2dServiceAccountSecretName converter) = Inr accountSecret"
    and "GetSecretBinds converter accountSecret = Inr accountBinds"
    and "range_ports converter Map.empty {} (Ports c) = Inr (portMaps, exposedPorts)"
    and "\<And>containerConfig. \<exists>containerConfig'.
      setEnvVars converter containerConfig (core_Container.Env c) (EnvFrom c) = Return (containerConfig', Some err)"
  shows "ConvertPodSpecToContainerConfiguration converter spec labels
    = Return (zero_ContainerConfiguration, Some err)"
proof -
  from assms(5) obtain f where f: "\<And>containerConfig.
      setEnvVars converter containerConfig (core_Container.Env c) (EnvFrom c) = Return (f containerConfig, Some err)"
    by metis
  show ?thesis
    by (simp add: ConvertPodSpecToContainerConfiguration_def assms(1-4)
        setServiceAccountTokenAndCACert_def setHostPorts_def f)
qed

lemma setEnvVars_entry_error:
  assumes pre: "\<And>containerConfig. \<exists>containerConfig'.
      range_envs converter containerConfig pre = Return (containerConfig', None)"
    and vf: "ValueFrom env \<noteq> None"
    and h: "\<And>containerConfig. handleValueFromEnvVars converter containerConfig env
      = Return (containerConfig, Some err)"
  shows "\<exists>containerConfig'.
      setEnvVars converter containerConfig (pre @ env # post) envFrom = Return (containerConfig', Some err)"
proof -
  from pre obtain mid where "range_envs converter containerConfig pre = Return (mid, None)" by blast
  then have "range_envs converter containerConfig (pre @ env # post) = Return (mid, Some err)"
    using vf h by (simp add: range_envs_append)
  then show ?thesis by (simp add: setEnvVars_def)
qed

lemma range_envs_same_as_literal:
  assumes vf: "ValueFrom env \<noteq> None"
    and h: "\<And>containerConfig. handleValueFromEnvVars converter containerConfig env
      = Return (containerConfig\<lparr>container_Config.Env :=
          container_Config.Env containerConfig @ [core_EnvVar.Name env @ ''='']\<rparr>, None)"
  shows "range_envs converter containerConfig (pre @ env # post)
    = range_envs converter containerConfig
        (pre @ \<lparr>core_EnvVar.Name = core_EnvVar.Name env, core_EnvVar.Value = '''', ValueFrom = None\<rparr> # post)"
  using vf by (simp add: range_envs_append h cong: outcome.case_cong prod.case_cong option.case_cong)

lemma Convert_same_as_literal:
  assumes spec: "Containers spec = c # cs"
    and env: "core_Container.Env c = pre @ env # post"
    and vf: "ValueFrom env \<noteq> None"
    and h: "\<And>containerConfig. handleValueFromEnvVars converter containerConfig env
      = Return (containerConfig\<lparr>container_Config.Env :=
          container_Config.Env containerConfig @ [core_EnvVar.Name env @ ''='']\<rparr>, None)"
  shows "ConvertPodSpecToContainerConfiguration converter spec labels
    = ConvertPodSpecToContainerConfiguration converter
        (spec\<lparr>Containers := c\<lparr>core_Container.Env :=
           pre @ \<lparr>core_EnvVar.Name = core_EnvVar.Name env, core_EnvVar.Value = '''', ValueFrom = None\<rparr> # post\<rparr> # cs\<rparr>)
        labels"
  by (simp add: ConvertPodSpecToContainerConfiguration_def spec env setEnvVars_def
      range_envs_same_as_literal [OF vf h]
      cong: outcome.case_cong prod.case_cong option.case_cong)

lemma Convert_success_contains:
  assumes spec: "Containers spec = c # cs"
    and env: "core_Container.Env c = pre @ env # post"
    and vf: "ValueFrom env \<noteq> None"
    and h: "\<And>containerConfig. handleValueFromEnvVars converter containerConfig env
      = Return (containerConfig\<lparr>container_Config.Env :=
          container_Config.Env containerConfig @ [entry]\<rparr>, None)"
    and ok: "ConvertPodSpecToContainerConfiguration converter spec labels = Return (bundle, None)"
  shows "\<exists>cc. ContainerConfig bundle = Some cc \<and> entry \<in> set (container_Config.Env cc)"
proof -
  from Convert_success_environment [OF ok] spec obtain before after cc where
    run: "setEnvVars converter before (core_Container.Env c) (EnvFrom c) = Return (after, None)"
    and cc: "ContainerConfig bundle = Some cc" "container_Config.Env cc = container_Config.Env after"
    by auto
  from run obtain mid where
    envs: "range_envs converter before (pre @ env # post) = Return (mid, None)"
    and from_: "range_envFrom converter mid (EnvFrom c) = (after, None)"
    by (auto simp: setEnvVars_def env split: outcome.splits prod.splits option.splits)
  from envs obtain p where
    p: "range_envs converter before pre = Return (p, None)"
    and rest: "range_envs converter p (env # post) = Return (mid, None)"
    by (auto simp: range_envs_append split: outcome.splits prod.splits option.splits)
  from rest vf h have "range_envs converter
      (p\<lparr>container_Config.Env := container_Config.Env p @ [entry]\<rparr>) post = Return (mid, None)"
    by simp
  from range_envs_grows [OF this] have "entry \<in> set (container_Config.Env mid)" by auto
  with range_envFrom_grows [OF from_] have "entry \<in> set (container_Config.Env after)" by auto
  with cc show ?thesis by simp
qed

lemma sample_account:
  "GetSecret sample_converter (K2dServiceAccountSecretName sample_converter)
     = Inr \<lparr>core_Secret.Name = ''k2d-serviceaccount'', core_Secret.Data = [(''token'', ''abc'')]\<rparr>"
  "GetSecretBinds sample_converter
     \<lparr>core_Secret.Name = ''k2d-serviceaccount'', core_Secret.Data = [(''token'', ''abc'')]\<rparr>
     = Inr [(''token'', ''/var/lib/k2d/secrets/k2d-serviceaccount-k2dsec-token'')]"
  by (simp_all add: sample_converter_def)

lemma sample_ports_accepted:
  "\<exists>portMaps exposedPorts.
     range_ports sample_converter Map.empty {} sample_ports = Inr (portMaps, exposedPorts)"
  by (simp add: sample_ports_def sample_converter_def sample_NewPort_def)

lemma sample_literal_resolves:
  "\<forall>containerConfig. \<exists>containerConfig'.
     range_envs sample_converter containerConfig
       [\<lparr>core_EnvVar.Name = ''LOG'', core_EnvVar.Value = ''debug'', ValueFrom = None\<rparr>]
     = Return (containerConfig', None)"
  by simp

lemma env_spec_converts:
  "GetConfigMap sample_converter resource = Inr configMap \<Longrightarrow>
   \<exists>result. ConvertPodSpecToContainerConfiguration sample_converter
      (env_spec (configmap_env name resource key)) Map.empty = Return (result, None)"
  "resource = ''k2d-serviceaccount'' \<or> resource = ''tls'' \<Longrightarrow>
   \<exists>result. ConvertPodSpecToContainerConfiguration sample_converter
      (env_spec (secret_env name resource key)) Map.empty = Return (result, None)"
  by (auto simp add: ConvertPodSpecToContainerConfiguration_def env_spec_def configmap_env_def secret_env_def
      zero_PodSpec_def zero_Container_def sample_converter_def setServiceAccountTokenAndCACert_def
      setHostPorts_def sample_ports_def sample_NewPort_def setEnvVars_def handleValueFromEnvVars_def
      setCommandAndArgs_def setRestartPolicy_def setSecurityContext_def setResourceRequirements_def
      split: if_splits)

text \<open>
  Claim C8. An entry of the first container's environment takes its value from a key
  of a config map or, when it names no config map, of a secret. When the store does
  not return the named resource, the conversion fails: it returns the zero bundle and
  the store's error wrapped with the operation and the resource's name. This is stated
  for a conversion that gets as far as the entry: the service-account secret and its
  bind mapping are found, the ports are accepted, and the entries before this one
  resolve. When the resource exists and its data has no such key, the entry raises no
  error: the conversion has the outcome it has with the literal entry of the same name
  and the empty value in its place, and whenever it succeeds the environment of the
  result holds \<open>NAME=\<close>.
\<close>

theorem Convert_indirect_env_entry:
  assumes spec: "Containers spec = c # cs"
    and env: "core_Container.Env c = pre @ env # post"
    and vf: "ValueFrom env = Some valueFrom"
  shows
   "(GetSecret converter (K2dServiceAccountSecretName converter) = Inr accountSecret
      \<and> GetSecretBinds converter accountSecret = Inr accountBinds
      \<and> range_ports converter Map.empty {} (Ports c) = Inr (portMaps, exposedPorts)
      \<and> (\<forall>containerConfig. \<exists>containerConfig'.
            range_envs converter containerConfig pre = Return (containerConfig', None))
      \<and> ConfigMapKeyRef valueFrom = Some cref
      \<and> GetConfigMap converter (core_ConfigMapKeySelector.Name cref) = Inl err
     \<longrightarrow> ConvertPodSpecToContainerConfiguration converter spec labels
         = Return (zero_ContainerConfiguration,
             Some (Errorf (''unable to get configmap '' @ core_ConfigMapKeySelector.Name cref @ '': '') err)))
    \<and> (GetSecret converter (K2dServiceAccountSecretName converter) = Inr accountSecret
      \<and> GetSecretBinds converter accountSecret = Inr accountBinds
      \<and> range_ports converter Map.empty {} (Ports c) = Inr (portMaps, exposedPorts)
      \<and> (\<forall>containerConfig. \<exists>containerConfig'.
            range_envs converter containerConfig pre = Return (containerConfig', None))
      \<and> ConfigMapKeyRef valueFrom = None \<and> SecretKeyRef valueFrom = Some sref
      \<and> GetSecret converter (core_SecretKeySelector.Name sref) = Inl err
     \<longrightarrow> ConvertPodSpecToContainerConfiguration converter spec labels
         = Return (zero_ContainerConfiguration,
             Some (Errorf (''unable to get secret '' @ core_SecretKeySelector.Name sref @ '': '') err)))
    \<and> ((ConfigMapKeyRef valueFrom = Some cref
        \<and> GetConfigMap converter (core_ConfigMapKeySelector.Name cref) = Inr configMap
        \<and> core_ConfigMapKeySelector.Key cref \<notin> fst ` set (core_ConfigMap.Data configMap))
       \<or> (ConfigMapKeyRef valueFrom = None \<and> SecretKeyRef valueFrom = Some sref
        \<and> GetSecret converter (core_SecretKeySelector.Name sref) = Inr secret
        \<and> core_SecretKeySelector.Key sref \<notin> fst ` set (core_Secret.Data secret))
     \<longrightarrow> ConvertPodSpecToContainerConfiguration converter spec labels
         = ConvertPodSpecToContainerConfiguration converter
             (spec\<lparr>Containers := c\<lparr>core_Container.Env :=
                pre @ \<lparr>core_EnvVar.Name = core_EnvVar.Name env, core_EnvVar.Value = '''',
                         ValueFrom = None\<rparr> # post\<rparr> # cs\<rparr>)
             labels
       \<and> (\<forall>bundle. ConvertPodSpecToContainerConfiguration converter spec labels = Return (bundle, None)
            \<longrightarrow> (\<exists>cc. ContainerConfig bundle = Some cc
                  \<and> core_EnvVar.Name env @ ''='' \<in> set (container_Config.Env cc))))"
proof (intro conjI impI)
  assume a: "GetSecret converter (K2dServiceAccountSecretName converter) = Inr accountSecret
      \<and> GetSecretBinds converter accountSecret = Inr accountBinds
      \<and> range_ports converter Map.empty {} (Ports c) = Inr (portMaps, exposedPorts)
      \<and> (\<forall>containerConfig. \<exists>containerConfig'.
            range_envs converter containerConfig pre = Return (containerConfig', None))
      \<and> ConfigMapKeyRef valueFrom = Some cref
      \<and> GetConfigMap converter (core_ConfigMapKeySelector.Name cref) = Inl err"
  let ?E = "Errorf (''unable to get configmap '' @ core_ConfigMapKeySelector.Name cref @ '': '') err"
  have h: "\<And>containerConfig. handleValueFromEnvVars converter containerConfig env
      = Return (containerConfig, Some ?E)"
    using handleValueFromEnvVars_resolution [of env valueFrom cref converter err] vf a by blast
  have "\<And>containerConfig. \<exists>containerConfig'.
      setEnvVars converter containerConfig (core_Container.Env c) (EnvFrom c) = Return (containerConfig', Some ?E)"
    unfolding env using a vf h by (intro setEnvVars_entry_error) auto
  then show "ConvertPodSpecToContainerConfiguration converter spec labels
      = Return (zero_ContainerConfiguration, Some ?E)"
    using a by (intro Convert_env_error [OF spec]) auto
next
  assume a: "GetSecret converter (K2dServiceAccountSecretName converter) = Inr accountSecret
      \<and> GetSecretBinds converter accountSecret = Inr accountBinds
      \<and> range_ports converter Map.empty {} (Ports c) = Inr (portMaps, exposedPorts)
      \<and> (\<forall>containerConfig. \<exists>containerConfig'.
            range_envs converter containerConfig pre = Return (containerConfig', None))
      \<and> ConfigMapKeyRef valueFrom = None \<and> SecretKeyRef valueFrom = Some sref
      \<and> GetSecret converter (core_SecretKeySelector.Name sref) = Inl err"
  let ?E = "Errorf (''unable to get secret '' @ core_SecretKeySelector.Name sref @ '': '') err"
  have h: "\<And>containerConfig. handleValueFromEnvVars converter containerConfig env
      = Return (containerConfig, Some ?E)"
    using handleValueFromEnvVars_resolution [of env valueFrom _ converter err _ _ sref] vf a by blast
  have "\<And>containerConfig. \<exists>containerConfig'.
      setEnvVars converter containerConfig (core_Container.Env c) (EnvFrom c) = Return (containerConfig', Some ?E)"
    unfolding env using a vf h by (intro setEnvVars_entry_error) auto
  then show "ConvertPodSpecToContainerConfiguration converter spec labels
      = Return (zero_ContainerConfiguration, Some ?E)"
    using a by (intro Convert_env_error [OF spec]) auto
next
  assume a: "(ConfigMapKeyRef valueFrom = Some cref
        \<and> GetConfigMap converter (core_ConfigMapKeySelector.Name cref) = Inr configMap
        \<and> core_ConfigMapKeySelector.Key cref \<notin> fst ` set (core_ConfigMap.Data configMap))
       \<or> (ConfigMapKeyRef valueFrom = None \<and> SecretKeyRef valueFrom = Some sref
        \<and> GetSecret converter (core_SecretKeySelector.Name sref) = Inr secret
        \<and> core_SecretKeySelector.Key sref \<notin> fst ` set (core_Secret.Data secret))"
  have h: "\<And>containerConfig. handleValueFromEnvVars converter containerConfig env
      = Return (containerConfig\<lparr>container_Config.Env :=
          container_Config.Env containerConfig @ [core_EnvVar.Name env @ ''='']\<rparr>, None)"
    using handleValueFromEnvVars_resolution [of env valueFrom cref converter _ _ configMap sref secret] vf a
    by blast
  have vf': "ValueFrom env \<noteq> None" using vf by simp
  show "ConvertPodSpecToContainerConfiguration converter spec labels
         = ConvertPodSpecToContainerConfiguration converter
             (spec\<lparr>Containers := c\<lparr>core_Container.Env :=
                pre @ \<lparr>core_EnvVar.Name = core_EnvVar.Name env, core_EnvVar.Value = '''',
                         ValueFrom = None\<rparr> # post\<rparr> # cs\<rparr>)
             labels"
    by (rule Convert_same_as_literal [OF spec env vf' h])
  show "\<forall>bundle. ConvertPodSpecToContainerConfiguration converter spec labels = Return (bundle, None)
            \<longrightarrow> (\<exists>cc. ContainerConfig bundle = Some cc
                  \<and> core_EnvVar.Name env @ ''='' \<in> set (container_Config.Env cc))"
    using Convert_success_contains [OF spec env vf' h] by blast
qed

theorem Convert_indirect_env_entry_witness:
  "ConvertPodSpecToContainerConfiguration sample_converter
       (env_spec (configmap_env ''MODE'' ''missing'' ''mode'')) Map.empty
     = Return (zero_ContainerConfiguration,
         Some (Errorf ''unable to get configmap missing: '' (External ''NotFound'')))
   \<and> ConvertPodSpecToContainerConfiguration sample_converter
       (env_spec (secret_env ''CERT'' ''ghost'' ''tls.crt'')) Map.empty
     = Return (zero_ContainerConfiguration,
         Some (Errorf ''unable to get secret ghost: '' (External ''NotFound'')))
   \<and> (\<exists>result cc. ConvertPodSpecToContainerConfiguration sample_converter
          (env_spec (configmap_env ''MODE'' ''app-config'' ''C'')) Map.empty = Return (result, None)
        \<and> ContainerConfig result = Some cc \<and> ''MODE='' \<in> set (container_Config.Env cc))
   \<and> (\<exists>result cc. ConvertPodSpecToContainerConfiguration sample_converter
          (env_spec (secret_env ''CERT'' ''tls'' ''tls.crt'')) Map.empty = Return (result, None)
        \<and> ContainerConfig result = Some cc \<and> ''CERT='' \<in> set (container_Config.Env cc))"
proof -
  let ?lit = "\<lparr>core_EnvVar.Name = ''LOG'', core_EnvVar.Value = ''debug'', ValueFrom = None\<rparr>"
  let ?c = "\<lambda>entry. zero_Container\<lparr>core_Container.Image := ''nginx'', Ports := sample_ports,
        core_Container.Env := [?lit, entry]\<rparr>"
  have shape: "\<And>entry. Containers (env_spec entry) = ?c entry # []"
    "\<And>entry. core_Container.Env (?c entry) = [?lit] @ entry # []"
    "\<And>entry. Ports (?c entry) = sample_ports"
    by (simp_all add: env_spec_def zero_PodSpec_def zero_Container_def)
  obtain portMaps exposedPorts where
    ports: "range_ports sample_converter Map.empty {} sample_ports = Inr (portMaps, exposedPorts)"
    using sample_ports_accepted by blast
  let ?missing = "\<lparr>core_ConfigMapKeySelector.Name = ''missing'', core_ConfigMapKeySelector.Key = ''mode''\<rparr>"
  let ?ghost = "\<lparr>core_SecretKeySelector.Name = ''ghost'', core_SecretKeySelector.Key = ''tls.crt''\<rparr>"
  let ?absentC = "\<lparr>core_ConfigMapKeySelector.Name = ''app-config'', core_ConfigMapKeySelector.Key = ''C''\<rparr>"
  let ?absentCrt = "\<lparr>core_SecretKeySelector.Name = ''tls'', core_SecretKeySelector.Key = ''tls.crt''\<rparr>"
  have vf1: "ValueFrom (configmap_env ''MODE'' ''missing'' ''mode'')
      = Some \<lparr>ConfigMapKeyRef = Some ?missing, SecretKeyRef = None\<rparr>"
    and vf2: "ValueFrom (secret_env ''CERT'' ''ghost'' ''tls.crt'')
      = Some \<lparr>ConfigMapKeyRef = None, SecretKeyRef = Some ?ghost\<rparr>"
    and vf3: "ValueFrom (configmap_env ''MODE'' ''app-config'' ''C'')
      = Some \<lparr>ConfigMapKeyRef = Some ?absentC, SecretKeyRef = None\<rparr>"
    and vf4: "ValueFrom (secret_env ''CERT'' ''tls'' ''tls.crt'')
      = Some \<lparr>ConfigMapKeyRef = None, SecretKeyRef = Some ?absentCrt\<rparr>"
    by (simp_all add: configmap_env_def secret_env_def)
  have names: "core_EnvVar.Name (configmap_env ''MODE'' ''app-config'' ''C'') = ''MODE''"
    "core_EnvVar.Name (secret_env ''CERT'' ''tls'' ''tls.crt'') = ''CERT''"
    by (simp_all add: configmap_env_def secret_env_def)
  have store: "GetConfigMap sample_converter ''missing'' = Inl (External ''NotFound'')"
    "GetSecret sample_converter ''ghost'' = Inl (External ''NotFound'')"
    "GetConfigMap sample_converter ''app-config''
      = Inr \<lparr>core_ConfigMap.Name = ''app-config'', core_ConfigMap.Data = [(''A'', ''1''), (''B'', ''2'')]\<rparr>"
    "GetSecret sample_converter ''tls''
      = Inr \<lparr>core_Secret.Name = ''tls'', core_Secret.Data = [(''tls.key'', ''k'')]\<rparr>"
    by (simp_all add: sample_converter_def)
  have one: "ConvertPodSpecToContainerConfiguration sample_converter
       (env_spec (configmap_env ''MODE'' ''missing'' ''mode'')) Map.empty
     = Return (zero_ContainerConfiguration,
         Some (Errorf ''unable to get configmap missing: '' (External ''NotFound'')))"
    using Convert_indirect_env_entry
      [OF shape(1) shape(2) vf1, where converter = sample_converter and labels = Map.empty
        and accountSecret = "\<lparr>core_Secret.Name = ''k2d-serviceaccount'', core_Secret.Data = [(''token'', ''abc'')]\<rparr>"
        and accountBinds = "[(''token'', ''/var/lib/k2d/secrets/k2d-serviceaccount-k2dsec-token'')]"
        and portMaps = portMaps and exposedPorts = exposedPorts
        and cref = ?missing and err = "External ''NotFound''", THEN conjunct1]
      sample_account ports store
    by (simp add: shape(3))
  have two: "ConvertPodSpecToContainerConfiguration sample_converter
       (env_spec (secret_env ''CERT'' ''ghost'' ''tls.crt'')) Map.empty
     = Return (zero_ContainerConfiguration,
         Some (Errorf ''unable to get secret ghost: '' (External ''NotFound'')))"
    using Convert_indirect_env_entry
      [OF shape(1) shape(2) vf2, where converter = sample_converter and labels = Map.empty
        and accountSecret = "\<lparr>core_Secret.Name = ''k2d-serviceaccount'', core_Secret.Data = [(''token'', ''abc'')]\<rparr>"
        and accountBinds = "[(''token'', ''/var/lib/k2d/secrets/k2d-serviceaccount-k2dsec-token'')]"
        and portMaps = portMaps and exposedPorts = exposedPorts
        and sref = ?ghost and err = "External ''NotFound''", THEN conjunct2, THEN conjunct1]
      sample_account ports store
    by (simp add: shape(3))
  obtain r3 where ok3: "ConvertPodSpecToContainerConfiguration sample_converter
       (env_spec (configmap_env ''MODE'' ''app-config'' ''C'')) Map.empty = Return (r3, None)"
    using env_spec_converts(1) [OF store(3)] by blast
  have three: "\<exists>cc. ContainerConfig r3 = Some cc \<and> ''MODE='' \<in> set (container_Config.Env cc)"
    using Convert_indirect_env_entry
      [OF shape(1) shape(2) vf3, where converter = sample_converter and labels = Map.empty
        and cref = ?absentC
        and configMap = "\<lparr>core_ConfigMap.Name = ''app-config'', core_ConfigMap.Data = [(''A'', ''1''), (''B'', ''2'')]\<rparr>",
        THEN conjunct2, THEN conjunct2]
      ok3 store
    by (simp add: names)
  obtain r4 where ok4: "ConvertPodSpecToContainerConfiguration sample_converter
       (env_spec (secret_env ''CERT'' ''tls'' ''tls.crt'')) Map.empty = Return (r4, None)"
    using env_spec_converts(2) [of "''tls''"] by auto
  have four: "\<exists>cc. ContainerConfig r4 = Some cc \<and> ''CERT='' \<in> set (container_Config.Env cc)"
    using Convert_indirect_env_entry
      [OF shape(1) shape(2) vf4, where converter = sample_converter and labels = Map.empty
        and sref = ?absentCrt
        and secret = "\<lparr>core_Secret.Name = ''tls'', core_Secret.Data = [(''tls.key'', ''k'')]\<rparr>",
        THEN conjunct2, THEN conjunct2]
      ok4 store
    by (simp add: names)
  from one two ok3 three ok4 four show ?thesis by blast
qed

end
